theory Spec2Isabelle
  imports
    Complex_Main
    "HOL-Library.Char_ord"
    "HOL-Library.List_Lexorder"
    "HOL-Library.Product_Lexorder"
    "HOL-Library.Sublist"
begin

section \<open>Data model\<close>

text \<open>
  The dashboard of \<^verbatim>\<open>appp.py\<close> works on one pandas DataFrame \<^verbatim>\<open>df\<close>, read from a
  spreadsheet. A DataFrame is modelled as the list of its rows, in row order. A row
  carries the columns the program reads: \<^verbatim>\<open>cidade\<close>, \<^verbatim>\<open>index\<close> (the date of the
  reading), \<^verbatim>\<open>year\<close>, \<^verbatim>\<open>tempMax\<close>, \<^verbatim>\<open>tempMed\<close>, \<^verbatim>\<open>tempMin\<close>, \<^verbatim>\<open>isHW\<close>,
  \<^verbatim>\<open>Lat\<close> and \<^verbatim>\<open>Long\<close>.

  A date is a calendar date: the program reads its month and nothing of a time of day.
  Strings are byte strings (UTF-8), compared bytewise; on UTF-8 this is the order of
  Python's \<^verbatim>\<open>str\<close> comparison by code point.

  A float is a \<open>double\<close>: NaN, which is also what an empty spreadsheet cell is read as,
  or a finite value, a rational number. The two zeros of IEEE arithmetic are one value,
  and infinities are no values of the model: a spreadsheet cell holds none, and sums of
  temperatures do not overflow.
\<close>

datatype double = NaN | Fin rat

datatype month = Jan | Feb | Mar | Apr | May | Jun | Jul | Aug | Sep | Oct | Nov | Dec

record timestamp =
  ts_year :: int
  ts_month :: month
  ts_day :: nat

text \<open>
  The column \<^verbatim>\<open>isHW\<close> changes its type in \<^verbatim>\<open>load_data\<close>: a spreadsheet cell before, a
  string after. The row type is polymorphic in it.
\<close>

record 'hw observation =
  cidade :: string
  index :: timestamp
  year :: int
  tempMax :: double
  tempMed :: double
  tempMin :: double
  isHW :: 'hw
  Lat :: double
  Long :: double

text \<open>
  What \<^verbatim>\<open>pd.read_excel\<close> can put into a cell of the flag column: a string, a boolean,
  an integer, or NaN for an empty cell.
\<close>

datatype cell = CStr string | CBool bool | CInt int | CNaN

type_synonym raw_dataframe = "cell observation list"
type_synonym dataframe = "string observation list"

section \<open>Python and pandas primitives\<close>

subsection \<open>\<^verbatim>\<open>str\<close> and \<^verbatim>\<open>str.upper\<close>\<close>

definition digit_char :: "nat \<Rightarrow> char" where
  "digit_char d = char_of (48 + d)"

fun str_nat :: "nat \<Rightarrow> string" where
  "str_nat n = (if n < 10 then [digit_char n] else str_nat (n div 10) @ [digit_char (n mod 10)])"

declare str_nat.simps [simp del]

definition str_int :: "int \<Rightarrow> string" where
  "str_int i = (if i < 0 then CHR ''-'' # str_nat (nat (- i)) else str_nat (nat i))"

fun py_str :: "cell \<Rightarrow> string" where
  "py_str (CStr s) = s"
| "py_str (CBool b) = (if b then ''True'' else ''False'')"
| "py_str (CInt i) = str_int i"
| "py_str CNaN = ''nan''"

text \<open>
  \<^verbatim>\<open>str.upper\<close> on the ASCII letters. Python also maps letters outside ASCII; none of
  them has an upper case made of the letters of \<^verbatim>\<open>TRUE\<close> only, and the program compares
  the result with \<^verbatim>\<open>"TRUE"\<close> and does nothing else with it.
\<close>

definition upper_char :: "char \<Rightarrow> char" where
  "upper_char c =
     (let n = (of_char c :: nat) in if 97 \<le> n \<and> n \<le> 122 then char_of (n - 32) else c)"

definition upper :: "string \<Rightarrow> string" where
  "upper s = map upper_char s"

subsection \<open>Float arithmetic\<close>

text \<open>
  \<^verbatim>\<open>calculate_anomalies\<close> calls three float routines of pandas and numpy, none of them
  code of \<^verbatim>\<open>appp.py\<close>: \<^verbatim>\<open>Series.mean\<close> for the baseline, the \<^verbatim>\<open>mean\<close> of a
  \<^verbatim>\<open>groupby\<close> for the years, and the subtraction of two floats. The two means are
  different routines, which add the same numbers in different ways and round differently.
  The routines are a parameter of the model; \<open>ieee_ops\<close> below gives them as they
  compute in IEEE doubles.
\<close>

record float_ops =
  series_mean :: "double list \<Rightarrow> double"
  group_mean :: "double list \<Rightarrow> double"
  fsub :: "double \<Rightarrow> double \<Rightarrow> double"

subsection \<open>\<^verbatim>\<open>groupby\<close>\<close>

text \<open>
  \<^verbatim>\<open>df.groupby(keys)\<close> with the default \<^verbatim>\<open>sort=True\<close>: one group per key value that
  occurs, the groups in ascending key order, each group holding its rows in row order.
\<close>

definition groupby :: "('r \<Rightarrow> 'k::linorder) \<Rightarrow> 'r list \<Rightarrow> ('k \<times> 'r list) list" where
  "groupby key rows = map (\<lambda>k. (k, filter (\<lambda>r. key r = k) rows)) (sort (remdups (map key rows)))"

definition size_groups :: "('k \<times> 'r list) list \<Rightarrow> ('k \<times> nat) list" where
  "size_groups gs = map (\<lambda>(k, g). (k, length g)) gs"

section \<open>The program\<close>

subsection \<open>\<^verbatim>\<open>load_data\<close>\<close>

text \<open>
  \<^verbatim>\<open>pd.read_excel\<close> is the parameter \<open>raw\<close>. The dates are already dates
  (\<^verbatim>\<open>pd.to_datetime\<close> leaves them); the flag becomes \<^verbatim>\<open>str(x).upper()\<close>.
\<close>

definition normalize_row :: "cell observation \<Rightarrow> string observation" where
  "normalize_row r =
     \<lparr>cidade = cidade r, index = index r, year = year r,
      tempMax = tempMax r, tempMed = tempMed r, tempMin = tempMin r,
      isHW = upper (py_str (isHW r)), Lat = Lat r, Long = Long r\<rparr>"

definition load_data :: "raw_dataframe \<Rightarrow> dataframe" where
  "load_data raw = map normalize_row raw"

subsection \<open>\<^verbatim>\<open>calculate_hw_summary\<close>\<close>

record hw_summary_row =
  s_cidade :: string
  s_year :: int
  dias_hw :: nat

definition calculate_hw_summary :: "dataframe \<Rightarrow> hw_summary_row list" where
  "calculate_hw_summary df =
     (let df_hw = filter (\<lambda>r. isHW r = ''TRUE'') df;
          df_hw_grouped = map (\<lambda>((c, y), n). \<lparr>s_cidade = c, s_year = y, dias_hw = n\<rparr>)
                            (size_groups (groupby (\<lambda>r. (cidade r, year r)) df_hw))
      in df_hw_grouped)"

subsection \<open>\<^verbatim>\<open>calculate_anomalies\<close>\<close>

text \<open>
  The error taxonomy of the specification. The result of a function that the
  specification lets fail is a sum, \<open>Inl\<close> the error, so that a failure would be a value.
  \<^verbatim>\<open>appp.py\<close> has no \<^verbatim>\<open>raise\<close>, and no operation on these paths fails on a
  well-typed DataFrame: the functions below have no \<open>Inl\<close> branch, as the source has none.
\<close>

datatype error = UnknownCityError | InvalidSelectionError

record anomaly_row =
  a_year :: int
  a_tempMed :: double
  anomalia :: double

definition calculate_anomalies ::
    "float_ops \<Rightarrow> dataframe \<Rightarrow> string \<Rightarrow> error + anomaly_row list" where
  "calculate_anomalies ops df c =
     (let baseline = series_mean ops (map tempMed (filter (\<lambda>r. cidade r = c) df));
          df_anomalia = map (\<lambda>(y, g). (y, group_mean ops (map tempMed g)))
                          (groupby year (filter (\<lambda>r. cidade r = c) df))
      in Inr (map (\<lambda>(y, m). \<lparr>a_year = y, a_tempMed = m, anomalia = fsub ops m baseline\<rparr>)
                df_anomalia))"

subsection \<open>\<^verbatim>\<open>calculate_hw_monthly\<close>\<close>

text \<open>
  \<^verbatim>\<open>strftime("%B")\<close> gives the month's full name in the locale of the process. The
  locale's naming is the parameter \<open>strftime_B\<close>. \<^verbatim>\<open>appp.py\<close> never sets a locale, so
  it runs in the C locale, whose names are the English ones: \<open>strftime_B_C\<close>.
\<close>

fun month_name :: "month \<Rightarrow> string" where
  "month_name Jan = ''January''"
| "month_name Feb = ''February''"
| "month_name Mar = ''March''"
| "month_name Apr = ''April''"
| "month_name May = ''May''"
| "month_name Jun = ''June''"
| "month_name Jul = ''July''"
| "month_name Aug = ''August''"
| "month_name Sep = ''September''"
| "month_name Oct = ''October''"
| "month_name Nov = ''November''"
| "month_name Dec = ''December''"

definition strftime_B_C :: "timestamp \<Rightarrow> string" where
  "strftime_B_C t = month_name (ts_month t)"

definition all_months :: "string list" where
  "all_months =
     [''January'', ''February'', ''March'', ''April'', ''May'', ''June'',
      ''July'', ''August'', ''September'', ''October'', ''November'', ''December'']"

text \<open>
  \<^verbatim>\<open>left.merge(right, on="mes", how="left")\<close>, the left frame having the key column
  only: the left rows in their order, each once for every right row of the same key, and
  once with NaN (\<open>None\<close>) when the right frame has no such key.
\<close>

definition merge_left :: "string list \<Rightarrow> (string \<times> nat) list \<Rightarrow> (string \<times> nat option) list" where
  "merge_left left right =
     concat (map (\<lambda>m. case filter (\<lambda>(k, n). k = m) right of
                          [] \<Rightarrow> [(m, None)]
                        | ms \<Rightarrow> map (\<lambda>(k, n). (m, Some n)) ms) left)"

definition fillna0 :: "nat option \<Rightarrow> nat" where
  "fillna0 v = (case v of None \<Rightarrow> 0 | Some n \<Rightarrow> n)"

record monthly_row =
  mes :: string
  frequencia :: nat

definition calculate_hw_monthly ::
    "(timestamp \<Rightarrow> string) \<Rightarrow> dataframe \<Rightarrow> string \<Rightarrow> int \<Rightarrow> monthly_row list" where
  "calculate_hw_monthly strftime_B df c ano =
     (let dff = filter (\<lambda>r. cidade r = c \<and> year r = ano \<and> isHW r = ''TRUE'') df;
          dff_mes = map (\<lambda>r. (r, strftime_B (index r))) dff;
          monthly_counts = size_groups (groupby snd dff_mes)
      in map (\<lambda>(m, f). \<lparr>mes = m, frequencia = fillna0 f\<rparr>)
           (merge_left all_months monthly_counts))"

subsection \<open>The callbacks\<close>

record scatter =
  sc_x :: "timestamp list"
  sc_y :: "double list"
  sc_mode :: string
  sc_name :: string
  sc_line_color :: string

record temp_figure =
  t_traces :: "scatter list"
  t_title :: string
  xaxis_title :: string
  yaxis_title :: string

text \<open>Line 162 of \<^verbatim>\<open>update_temp_plot\<close>: the rows of the city and the year.\<close>

definition filterDaily :: "dataframe \<Rightarrow> string \<Rightarrow> int \<Rightarrow> dataframe" where
  "filterDaily df c ano = filter (\<lambda>r. cidade r = c \<and> year r = ano) df"

text \<open>The non-ASCII letters of the labels are written as their UTF-8 bytes.\<close>

definition update_temp_plot :: "dataframe \<Rightarrow> string \<Rightarrow> int \<Rightarrow> error + temp_figure" where
  "update_temp_plot df c ano =
     (let dff = filterDaily df c ano
      in Inr \<lparr>t_traces =
                [\<lparr>sc_x = map index dff, sc_y = map tempMax dff, sc_mode = ''lines'',
                  sc_name = ''M'' @ [CHR 0xC3, CHR 0xA1] @ ''xima'',
                  sc_line_color = ''red''\<rparr>,
                 \<lparr>sc_x = map index dff, sc_y = map tempMed dff, sc_mode = ''lines'',
                  sc_name = ''M'' @ [CHR 0xC3, CHR 0xA9] @ ''dia'',
                  sc_line_color = ''blue''\<rparr>,
                 \<lparr>sc_x = map index dff, sc_y = map tempMin dff, sc_mode = ''lines'',
                  sc_name = ''M'' @ [CHR 0xC3, CHR 0xAD] @ ''nima'',
                  sc_line_color = ''green''\<rparr>],
              t_title = ''Temperaturas em '' @ c @ '' ('' @ str_int ano @ '')'',
              xaxis_title = ''Data'',
              yaxis_title = ''Temperatura ('' @ [CHR 0xC2, CHR 0xB0] @ ''C)''\<rparr>)"

record scatterpolar =
  sp_r :: "nat list"
  sp_theta :: "string list"
  sp_fill :: string
  sp_mode :: string
  sp_line_color :: string
  sp_marker_color :: string

record polar_figure =
  p_traces :: "scatterpolar list"
  radialaxis_visible :: bool
  p_title :: string
  showlegend :: bool

definition update_polar_plot ::
    "(timestamp \<Rightarrow> string) \<Rightarrow> dataframe \<Rightarrow> string \<Rightarrow> int \<Rightarrow> error + polar_figure" where
  "update_polar_plot strftime_B df c ano =
     (let df_polar = calculate_hw_monthly strftime_B df c ano
      in Inr \<lparr>p_traces =
                [\<lparr>sp_r = map frequencia df_polar, sp_theta = map mes df_polar,
                  sp_fill = ''toself'', sp_mode = ''lines+markers'',
                  sp_line_color = ''blue'', sp_marker_color = ''blue''\<rparr>],
              radialaxis_visible = True,
              p_title = ''Frequ'' @ [CHR 0xC3, CHR 0xAA]
                          @ ''ncia de Ondas de Calor em '' @ c @ '' - '' @ str_int ano,
              showlegend = False\<rparr>)"

subsection \<open>The selection domains\<close>

text \<open>Lines 82 and 83: \<^verbatim>\<open>sorted(df["cidade"].unique())\<close> and \<^verbatim>\<open>sorted(df["year"].unique())\<close>.\<close>

definition cidades :: "dataframe \<Rightarrow> string list" where
  "cidades df = sort (remdups (map cidade df))"

definition anos :: "dataframe \<Rightarrow> int list" where
  "anos df = sort (remdups (map year df))"

section \<open>The float routines in IEEE doubles\<close>

text \<open>
  A double has 53 significant bits, and each operation gives the double nearest to the
  exact result, the one with the even last bit when two are equally near. \<open>round53\<close> is
  this rounding; the range of exponents is not modelled (no overflow, no subnormal
  numbers). \<open>bitlen i\<close> is the number of binary digits of \<open>i\<close>, and \<open>ilog2 v\<close> the
  exponent of a positive \<open>v\<close>, the largest \<open>e\<close> with \<open>2 ^ e \<le> v\<close>.
\<close>

function bitlen :: "int \<Rightarrow> int" where
  "bitlen i = (if i \<le> 0 then 0 else 1 + bitlen (i div 2))"
  by pat_completeness auto
termination
  by (relation "measure nat") auto

declare bitlen.simps [simp del]

definition pow2 :: "int \<Rightarrow> rat" where
  "pow2 e = (if 0 \<le> e then of_int (2 ^ nat e) else 1 / of_int (2 ^ nat (- e)))"

definition ilog2 :: "rat \<Rightarrow> int" where
  "ilog2 v =
     (let (p, q) = quotient_of v;
          d = bitlen p - bitlen q
      in if (if 0 \<le> d then q * 2 ^ nat d \<le> p else q \<le> p * 2 ^ nat (- d)) then d else d - 1)"

text \<open>The quotient \<open>n / d\<close> of two integers, \<open>d\<close> positive, as the nearest integer.\<close>

definition nearest_even :: "int \<Rightarrow> int \<Rightarrow> int" where
  "nearest_even n d =
     (let f = n div d; rest = n mod d
      in if 2 * rest < d then f else if d < 2 * rest then f + 1
         else if even f then f else f + 1)"

text \<open>\<open>v / 2 ^ e\<close> as a quotient of two integers.\<close>

definition scaled :: "int \<Rightarrow> rat \<Rightarrow> int \<times> int" where
  "scaled e v =
     (let (p, q) = quotient_of v
      in if 0 \<le> e then (p, q * 2 ^ nat e) else (p * 2 ^ nat (- e), q))"

definition round53 :: "rat \<Rightarrow> rat" where
  "round53 v =
     (if v = 0 then 0
      else let e = ilog2 \<bar>v\<bar> - 52;
               (n, d) = scaled e \<bar>v\<bar>
           in sgn v * (of_int (nearest_even n d) * pow2 e))"

text \<open>The double a decimal literal stands for.\<close>

definition dbl :: "rat \<Rightarrow> double" where
  "dbl v = Fin (round53 v)"

fun d_add :: "double \<Rightarrow> double \<Rightarrow> double" where
  "d_add (Fin a) (Fin b) = Fin (round53 (a + b))"
| "d_add _ _ = NaN"

fun d_sub :: "double \<Rightarrow> double \<Rightarrow> double" where
  "d_sub (Fin a) (Fin b) = Fin (round53 (a - b))"
| "d_sub _ _ = NaN"

text \<open>A sum divided by a count; the callers divide by positive counts only.\<close>

fun d_div_count :: "double \<Rightarrow> nat \<Rightarrow> double" where
  "d_div_count (Fin a) n = (if n = 0 then NaN else Fin (round53 (a / of_nat n)))"
| "d_div_count NaN n = NaN"

text \<open>
  \<^verbatim>\<open>ndarray.sum\<close> of numpy adds pairwise: fewer than 8 numbers one after the other;
  up to 128 numbers in eight running sums, which take every eighth number each and are
  added up at the end, the numbers left over after the last full eight coming last; more
  numbers as the sum of two halves, the first an amount that is a multiple of 8.
\<close>

fun accumulate8 :: "double list \<Rightarrow> double list \<Rightarrow> double list" where
  "accumulate8 acc xs =
     (if length xs < 8 then acc
      else accumulate8 (map (\<lambda>(a, b). d_add a b) (zip acc (take 8 xs))) (drop 8 xs))"

declare accumulate8.simps [simp del]

function pairwise_sum :: "double list \<Rightarrow> double" where
  "pairwise_sum xs =
     (if length xs < 8 then foldl d_add (Fin 0) xs
      else if length xs \<le> 128 then
        foldl d_add
          (case accumulate8 (take 8 xs) (drop 8 xs) of
             [r0, r1, r2, r3, r4, r5, r6, r7] \<Rightarrow>
               d_add (d_add (d_add r0 r1) (d_add r2 r3)) (d_add (d_add r4 r5) (d_add r6 r7))
           | _ \<Rightarrow> NaN)
          (drop (length xs - length xs mod 8) xs)
      else d_add (pairwise_sum (take (length xs div 2 - length xs div 2 mod 8) xs))
                 (pairwise_sum (drop (length xs div 2 - length xs div 2 mod 8) xs)))"
  by pat_completeness auto
termination
  by (relation "measure length") auto

declare pairwise_sum.simps [simp del]

text \<open>
  \<^verbatim>\<open>Series.mean\<close> (\<^verbatim>\<open>nanops.nanmean\<close> of pandas): the NaN are left out of the count and
  count as 0 in the sum; the mean of no number is NaN.
\<close>

definition nanmean :: "double list \<Rightarrow> double" where
  "nanmean xs =
     (let count = length (filter (\<lambda>v. v \<noteq> NaN) xs);
          the_sum = pairwise_sum (map (\<lambda>v. if v = NaN then Fin 0 else v) xs)
      in if 0 < count then d_div_count the_sum count else NaN)"

text \<open>
  The \<^verbatim>\<open>mean\<close> of a \<^verbatim>\<open>groupby\<close> (\<^verbatim>\<open>group_mean\<close> of pandas): a compensated sum, which
  carries the rounding error of each addition into the next one, over the numbers that
  are not NaN, divided by their count; the mean of no number is NaN.
\<close>

fun kahan_step :: "nat \<times> double \<times> double \<Rightarrow> double \<Rightarrow> nat \<times> double \<times> double" where
  "kahan_step (nobs, sumx, compensation) val =
     (if val = NaN then (nobs, sumx, compensation)
      else let y = d_sub val compensation;
               t = d_add sumx y
           in (Suc nobs, t, d_sub (d_sub t sumx) y))"

definition kahan_mean :: "double list \<Rightarrow> double" where
  "kahan_mean xs =
     (case foldl kahan_step (0, Fin 0, Fin 0) xs of
        (nobs, sumx, compensation) \<Rightarrow> if nobs = 0 then NaN else d_div_count sumx nobs)"

definition ieee_ops :: float_ops where
  "ieee_ops = \<lparr>series_mean = nanmean, group_mean = kahan_mean, fsub = d_sub\<rparr>"

section \<open>The aggregators on a store of frames\<close>

text \<open>
  Python passes \<^verbatim>\<open>df\<close> by reference, and the aggregators assign columns to frames
  they hold. To see which object an assignment changes, the frames live in a store: an
  address is a position in the list of all frames. A row of a stored frame carries the
  column \<^verbatim>\<open>mes\<close> as an option, \<open>None\<close> where the frame has no such value.

  \<^verbatim>\<open>df[mask]\<close> and \<^verbatim>\<open>.copy()\<close> make a new frame; \<^verbatim>\<open>dff["mes"] = ...\<close> changes the
  frame \<^verbatim>\<open>dff\<close> refers to. The results of \<^verbatim>\<open>groupby\<close>, \<^verbatim>\<open>reset_index\<close> and
  \<^verbatim>\<open>merge\<close> are new frames of another shape, which only the function itself holds:
  they are values. \<^verbatim>\<open>groupby\<close> drops the rows whose key is missing.

  An address is read with \<open>s ! a\<close>, which says nothing for an address beyond the
  store: a Python name always refers to an object, so the statements about these
  functions take the address of the dataset inside the store, and the addresses the
  functions make themselves are inside it.
\<close>

type_synonym frame = "(string observation \<times> string option) list"
type_synonym store = "frame list"

definition alloc :: "frame \<Rightarrow> store \<Rightarrow> nat \<times> store" where
  "alloc f s = (length s, s @ [f])"

definition st_getitem :: "(string observation \<Rightarrow> bool) \<Rightarrow> nat \<Rightarrow> store \<Rightarrow> nat \<times> store" where
  "st_getitem p a s = alloc (filter (\<lambda>(r, m). p r) (s ! a)) s"

definition st_copy :: "nat \<Rightarrow> store \<Rightarrow> nat \<times> store" where
  "st_copy a s = alloc (s ! a) s"

definition st_set_mes :: "(string observation \<Rightarrow> string) \<Rightarrow> nat \<Rightarrow> store \<Rightarrow> store" where
  "st_set_mes f a s = s[a := map (\<lambda>(r, m). (r, Some (f r))) (s ! a)]"

definition calculate_hw_summary_st :: "nat \<Rightarrow> store \<Rightarrow> hw_summary_row list \<times> store" where
  "calculate_hw_summary_st df s =
     (let (m, s1) = st_getitem (\<lambda>r. isHW r = ''TRUE'') df s;
          (df_hw, s2) = st_copy m s1;
          df_hw_grouped = map (\<lambda>((c, y), n). \<lparr>s_cidade = c, s_year = y, dias_hw = n\<rparr>)
                            (size_groups (groupby (\<lambda>(r, m). (cidade r, year r)) (s2 ! df_hw)))
      in (df_hw_grouped, s2))"

definition calculate_anomalies_st ::
    "float_ops \<Rightarrow> nat \<Rightarrow> string \<Rightarrow> store \<Rightarrow> (error + anomaly_row list) \<times> store" where
  "calculate_anomalies_st ops df c s =
     (let (a, s1) = st_getitem (\<lambda>r. cidade r = c) df s;
          baseline = series_mean ops (map (\<lambda>(r, m). tempMed r) (s1 ! a));
          (b, s2) = st_getitem (\<lambda>r. cidade r = c) df s1;
          df_anomalia = map (\<lambda>(y, g). (y, group_mean ops (map (\<lambda>(r, m). tempMed r) g)))
                          (groupby (\<lambda>(r, m). year r) (s2 ! b))
      in (Inr (map (\<lambda>(y, m). \<lparr>a_year = y, a_tempMed = m, anomalia = fsub ops m baseline\<rparr>)
                 df_anomalia), s2))"

definition calculate_hw_monthly_st ::
    "(timestamp \<Rightarrow> string) \<Rightarrow> nat \<Rightarrow> string \<Rightarrow> int \<Rightarrow> store \<Rightarrow> monthly_row list \<times> store" where
  "calculate_hw_monthly_st strftime_B df c ano s =
     (let (m, s1) = st_getitem (\<lambda>r. cidade r = c \<and> year r = ano \<and> isHW r = ''TRUE'') df s;
          (dff, s2) = st_copy m s1;
          s3 = st_set_mes (\<lambda>r. strftime_B (index r)) dff s2;
          monthly_counts = size_groups (groupby id (List.map_filter snd (s3 ! dff)))
      in (map (\<lambda>(m, f). \<lparr>mes = m, frequencia = fillna0 f\<rparr>)
            (merge_left all_months monthly_counts), s3))"

section \<open>Notions of the specification\<close>

text \<open>The heat-wave-day Observations of a city and a year.\<close>

definition hw_rows :: "dataframe \<Rightarrow> string \<Rightarrow> int \<Rightarrow> dataframe" where
  "hw_rows df c ano = filter (\<lambda>r. cidade r = c \<and> year r = ano \<and> isHW r = ''TRUE'') df"

text \<open>The Observations of a city, and those of a city and a year.\<close>

definition city_rows :: "dataframe \<Rightarrow> string \<Rightarrow> dataframe" where
  "city_rows df c = filter (\<lambda>r. cidade r = c) df"

definition city_year_rows :: "dataframe \<Rightarrow> string \<Rightarrow> int \<Rightarrow> dataframe" where
  "city_year_rows df c ano = filter (\<lambda>r. cidade r = c \<and> year r = ano) df"

text \<open>The calendar months in calendar order.\<close>

definition months :: "month list" where
  "months = [Jan, Feb, Mar, Apr, May, Jun, Jul, Aug, Sep, Oct, Nov, Dec]"

text \<open>Ascending timestamp order: by year, then month, then day.\<close>

fun month_number :: "month \<Rightarrow> nat" where
  "month_number Jan = 1"
| "month_number Feb = 2"
| "month_number Mar = 3"
| "month_number Apr = 4"
| "month_number May = 5"
| "month_number Jun = 6"
| "month_number Jul = 7"
| "month_number Aug = 8"
| "month_number Sep = 9"
| "month_number Oct = 10"
| "month_number Nov = 11"
| "month_number Dec = 12"

definition ts_le :: "timestamp \<Rightarrow> timestamp \<Rightarrow> bool" where
  "ts_le a b =
     (ts_year a < ts_year b
      \<or> ts_year a = ts_year b \<and> month_number (ts_month a) < month_number (ts_month b)
      \<or> ts_year a = ts_year b \<and> ts_month a = ts_month b \<and> ts_day a \<le> ts_day b)"

definition ascending :: "'hw observation list \<Rightarrow> bool" where
  "ascending rows = sorted_wrt (\<lambda>a b. ts_le (index a) (index b)) rows"

text \<open>
  Equality of strings up to the case of ASCII letters, and the flag the specification
  gives an Observation: true exactly when the text of the raw value is \<^verbatim>\<open>TRUE\<close> up to
  case.
\<close>

definition lower_char :: "char \<Rightarrow> char" where
  "lower_char c =
     (let n = (of_char c :: nat) in if 65 \<le> n \<and> n \<le> 90 then char_of (n + 32) else c)"

definition ci_equal :: "string \<Rightarrow> string \<Rightarrow> bool" where
  "ci_equal s t = (map lower_char s = map lower_char t)"

definition isHeatWaveDay :: "cell \<Rightarrow> bool" where
  "isHeatWaveDay v = ci_equal (py_str v) ''TRUE''"

definition canonical_row :: "cell observation \<Rightarrow> string observation" where
  "canonical_row r =
     \<lparr>cidade = cidade r, index = index r, year = year r,
      tempMax = tempMax r, tempMed = tempMed r, tempMin = tempMin r,
      isHW = (if isHeatWaveDay (isHW r) then ''TRUE'' else ''FALSE''), Lat = Lat r, Long = Long r\<rparr>"

text \<open>The Observations whose raw flag makes them heat-wave days, of a city and a year.\<close>

definition hw_raw_rows :: "raw_dataframe \<Rightarrow> string \<Rightarrow> int \<Rightarrow> raw_dataframe" where
  "hw_raw_rows raw c ano =
     filter (\<lambda>r. cidade r = c \<and> year r = ano \<and> isHeatWaveDay (isHW r)) raw"

section \<open>Example data\<close>

definition reading :: "string \<Rightarrow> int \<Rightarrow> month \<Rightarrow> nat \<Rightarrow> double \<Rightarrow> 'hw \<Rightarrow> 'hw observation" where
  "reading c ano m d t hw =
     \<lparr>cidade = c, index = \<lparr>ts_year = ano, ts_month = m, ts_day = d\<rparr>, year = ano,
      tempMax = t, tempMed = t, tempMin = t, isHW = hw, Lat = Fin (- 8), Long = Fin (- 35)\<rparr>"

definition example_df :: dataframe where
  "example_df =
     [reading ''Recife'' 2020 Mar 9 (Fin 30) ''TRUE'',
      reading ''Recife'' 2020 Jan 5 (Fin 29) ''TRUE'',
      reading ''Recife'' 2020 Jan 6 (Fin 31) ''TRUE'',
      reading ''Recife'' 2020 Feb 1 (Fin 26) ''FALSE'',
      reading ''Fortaleza'' 2019 Jul 1 (Fin 28) ''FALSE'',
      reading ''Fortaleza'' 2020 Jul 1 (Fin 30) ''TRUE'',
      reading ''Fortaleza'' 2021 Jul 1 (Fin 29) ''NAN'']"

definition example_sorted_df :: dataframe where
  "example_sorted_df =
     [reading ''Recife'' 2019 Dec 31 (Fin 27) ''FALSE'',
      reading ''Recife'' 2020 Jan 5 (Fin 29) ''TRUE'',
      reading ''Natal'' 2020 Feb 2 (Fin 28) ''FALSE'',
      reading ''Recife'' 2020 Mar 9 (Fin 30) ''TRUE'']"

text \<open>A store whose frame at address 0 is the example dataset, no row having \<^verbatim>\<open>mes\<close>.\<close>

text \<open>
  A city with one year of data, the readings 21.5, 24.8 and 28.9, and a city whose cells
  of the one year it has are empty.
\<close>

definition example_single_year_df :: dataframe where
  "example_single_year_df =
     [reading ''Natal'' 2020 Jan 1 (dbl (215 / 10)) ''FALSE'',
      reading ''Natal'' 2020 Jan 2 (dbl (248 / 10)) ''FALSE'',
      reading ''Natal'' 2020 Jan 3 (dbl (289 / 10)) ''FALSE'',
      reading ''Olinda'' 2021 Jan 1 NaN ''FALSE'',
      reading ''Olinda'' 2021 Jan 2 NaN ''FALSE'']"

text \<open>Raw rows as the spreadsheet gives them, the flag in different forms.\<close>

definition example_raw :: raw_dataframe where
  "example_raw =
     [reading ''Recife'' 2020 Jan 5 (Fin 29) (CBool True),
      reading ''Recife'' 2020 Jan 6 (Fin 31) (CStr ''true''),
      reading ''Recife'' 2020 Feb 1 (Fin 26) (CStr ''FALSE''),
      reading ''Recife'' 2020 Mar 9 (Fin 30) (CStr ''True''),
      reading ''Recife'' 2020 Apr 2 (Fin 27) CNaN,
      reading ''Natal'' 2021 May 2 (Fin 27) (CInt 1),
      reading ''Natal'' 2021 May 3 (Fin 28) (CStr ''TRUE'')]"

definition example_store :: store where
  "example_store = [map (\<lambda>r. (r, None)) example_df]"

text \<open>The month names of a Portuguese locale, as \<^verbatim>\<open>strftime("%B")\<close> gives them there.\<close>

fun month_name_pt :: "month \<Rightarrow> string" where
  "month_name_pt Jan = ''janeiro''"
| "month_name_pt Feb = ''fevereiro''"
| "month_name_pt Mar = ''mar'' @ [CHR 0xC3, CHR 0xA7] @ ''o''"
| "month_name_pt Apr = ''abril''"
| "month_name_pt May = ''maio''"
| "month_name_pt Jun = ''junho''"
| "month_name_pt Jul = ''julho''"
| "month_name_pt Aug = ''agosto''"
| "month_name_pt Sep = ''setembro''"
| "month_name_pt Oct = ''outubro''"
| "month_name_pt Nov = ''novembro''"
| "month_name_pt Dec = ''dezembro''"

definition strftime_B_pt :: "timestamp \<Rightarrow> string" where
  "strftime_B_pt t = month_name_pt (ts_month t)"

section \<open>Grouping and merging\<close>

lemma size_groups_groupby:
  "size_groups (groupby key rows) =
     map (\<lambda>k. (k, length (filter (\<lambda>r. key r = k) rows))) (sort (remdups (map key rows)))"
  by (simp add: size_groups_def groupby_def comp_def)

lemma filter_key_distinct:
  "distinct (map fst right) \<Longrightarrow>
     filter (\<lambda>(k, n). k = m) right = (case map_of right m of None \<Rightarrow> [] | Some n \<Rightarrow> [(m, n)])"
proof (induction right)
  case Nil
  then show ?case by simp
next
  case (Cons p right)
  obtain k n where p: "p = (k, n)" by (cases p)
  show ?case
  proof (cases "k = m")
    case True
    with Cons.prems p have "m \<notin> fst ` set right" by auto
    then have "filter (\<lambda>(k, n). k = m) right = []"
      by (force simp: filter_empty_conv)
    with True p show ?thesis by simp
  next
    case False
    with Cons p show ?thesis by simp
  qed
qed

lemma merge_left_distinct:
  "distinct (map fst right) \<Longrightarrow> merge_left left right = map (\<lambda>m. (m, map_of right m)) left"
  unfolding merge_left_def
  by (induction left) (auto simp: filter_key_distinct split: option.splits)

lemma map_of_tabulate:
  "map_of (map (\<lambda>k. (k, f k)) ks) m = (if m \<in> set ks then Some (f m) else None)"
  by (induction ks) auto

text \<open>
  The merge of the twelve names with the counts of a key column, after \<^verbatim>\<open>fillna\<close>: each
  name with the number of times it occurs in the column.
\<close>

lemma merge_counts:
  "map (\<lambda>(m, f). \<lparr>mes = m, frequencia = fillna0 f\<rparr>)
       (merge_left left (size_groups (groupby id ks)))
     = map (\<lambda>m. \<lparr>mes = m, frequencia = length (filter (\<lambda>k. k = m) ks)\<rparr>) left"
proof -
  define cnt where "cnt = (\<lambda>m. length (filter (\<lambda>k. k = m) ks))"
  define keys where "keys = sort (remdups ks)"
  have counts: "size_groups (groupby id ks) = map (\<lambda>k. (k, cnt k)) keys"
    by (simp add: size_groups_groupby keys_def cnt_def)
  have dist: "distinct (map fst (map (\<lambda>k. (k, cnt k)) keys))"
    by (simp add: comp_def keys_def)
  have zero: "m \<notin> set keys \<Longrightarrow> cnt m = 0" for m
    by (auto simp: keys_def cnt_def filter_empty_conv)
  have fill: "fillna0 (map_of (map (\<lambda>k. (k, cnt k)) keys) m) = cnt m" for m
    using zero [of m] by (simp add: map_of_tabulate fillna0_def)
  show ?thesis
    unfolding counts merge_left_distinct [OF dist]
    by (simp add: comp_def fill) (simp add: cnt_def)
qed

lemma size_groups_key_column:
  "size_groups (groupby snd (map (\<lambda>r. (r, f r)) rows)) = size_groups (groupby id (map f rows))"
  by (simp add: size_groups_groupby comp_def filter_map)

section \<open>\<^verbatim>\<open>calculate_hw_summary\<close>\<close>

lemma calculate_hw_summary_eq:
  "calculate_hw_summary df =
     map (\<lambda>(c, ano). \<lparr>s_cidade = c, s_year = ano, dias_hw = length (hw_rows df c ano)\<rparr>)
       (sort (remdups (map (\<lambda>r. (cidade r, year r)) (filter (\<lambda>r. isHW r = ''TRUE'') df))))"
  unfolding calculate_hw_summary_def size_groups_groupby Let_def hw_rows_def
  by (auto simp: comp_def case_prod_unfold intro!: arg_cong [where f = length] filter_cong)

text \<open>
  C5. \<^verbatim>\<open>calculate_hw_summary\<close> returns one row for each pair of a city and a year that
  has at least one heat-wave-day Observation, and for no other pair; the keys of its rows
  are pairwise distinct; the count of a row is the number of heat-wave-day Observations
  of its city and year, and is not 0; the rows ascend by city (bytewise), then by year.
\<close>

theorem calculate_hw_summary_rows:
  "set (map (\<lambda>row. (s_cidade row, s_year row)) (calculate_hw_summary df))
       = {(c, ano). hw_rows df c ano \<noteq> []}
   \<and> distinct (map (\<lambda>row. (s_cidade row, s_year row)) (calculate_hw_summary df))
   \<and> (\<forall>row \<in> set (calculate_hw_summary df).
         dias_hw row = length (hw_rows df (s_cidade row) (s_year row)) \<and> 0 < dias_hw row)
   \<and> sorted_wrt (\<lambda>a b. s_cidade a < s_cidade b \<or> s_cidade a = s_cidade b \<and> s_year a < s_year b)
         (calculate_hw_summary df)"
proof -
  define out where "out = calculate_hw_summary df"
  let ?keys = "sort (remdups (map (\<lambda>r. (cidade r, year r)) (filter (\<lambda>r. isHW r = ''TRUE'') df)))"
  have keys: "map (\<lambda>row. (s_cidade row, s_year row)) out = ?keys"
    unfolding out_def calculate_hw_summary_eq by (simp add: comp_def case_prod_unfold)
  have mem: "(c, ano) \<in> set ?keys \<longleftrightarrow> hw_rows df c ano \<noteq> []" for c ano
    by (auto simp: hw_rows_def filter_empty_conv)
  have 1: "set (map (\<lambda>row. (s_cidade row, s_year row)) out) = {(c, ano). hw_rows df c ano \<noteq> []}"
    unfolding keys using mem by auto
  have 2: "distinct (map (\<lambda>row. (s_cidade row, s_year row)) out)"
    unfolding keys by simp
  have 3: "\<forall>row \<in> set out.
             dias_hw row = length (hw_rows df (s_cidade row) (s_year row)) \<and> 0 < dias_hw row"
  proof
    fix row assume "row \<in> set out"
    then obtain c ano where cy: "(c, ano) \<in> set ?keys"
      and row: "row = \<lparr>s_cidade = c, s_year = ano, dias_hw = length (hw_rows df c ano)\<rparr>"
      unfolding out_def calculate_hw_summary_eq by auto
    from cy mem have "hw_rows df c ano \<noteq> []" by blast
    with row show "dias_hw row = length (hw_rows df (s_cidade row) (s_year row)) \<and> 0 < dias_hw row"
      by simp
  qed
  have "sorted_wrt (<) ?keys"
    by (simp add: strict_sorted_iff)
  then have "sorted_wrt (\<lambda>a b. (s_cidade a, s_year a) < (s_cidade b, s_year b)) out"
    unfolding keys [symmetric] by (simp add: sorted_wrt_map)
  then have 4: "sorted_wrt
      (\<lambda>a b. s_cidade a < s_cidade b \<or> s_cidade a = s_cidade b \<and> s_year a < s_year b) out"
    by (rule sorted_wrt_mono_rel [rotated]) (auto simp: less_prod_def less_le)
  from 1 2 3 4 show ?thesis unfolding out_def by blast
qed

lemma calculate_hw_summary_example:
  "calculate_hw_summary example_df =
     [\<lparr>s_cidade = ''Fortaleza'', s_year = 2020, dias_hw = 1\<rparr>,
      \<lparr>s_cidade = ''Recife'', s_year = 2020, dias_hw = 3\<rparr>]"
  by code_simp

lemma hw_rows_example_Recife: "length (hw_rows example_df ''Recife'' 2020) = 3"
  by code_simp

theorem calculate_hw_summary_rows_witness:
  "\<lparr>s_cidade = ''Recife'', s_year = 2020, dias_hw = 3\<rparr> \<in> set (calculate_hw_summary example_df)
   \<and> dias_hw \<lparr>s_cidade = ''Recife'', s_year = 2020, dias_hw = 3\<rparr>
       = length (hw_rows example_df ''Recife'' 2020)
   \<and> (0::nat) < dias_hw \<lparr>s_cidade = ''Recife'', s_year = 2020, dias_hw = 3\<rparr>"
  using calculate_hw_summary_rows [of example_df]
  by (simp add: calculate_hw_summary_example hw_rows_example_Recife)

section \<open>\<^verbatim>\<open>calculate_hw_monthly\<close>\<close>

lemma calculate_hw_monthly_eq:
  "calculate_hw_monthly strftime_B df c ano =
     map (\<lambda>m. \<lparr>mes = m,
               frequencia = length (filter (\<lambda>r. strftime_B (index r) = m) (hw_rows df c ano))\<rparr>)
       all_months"
proof -
  have "calculate_hw_monthly strftime_B df c ano =
          map (\<lambda>(m, f). \<lparr>mes = m, frequencia = fillna0 f\<rparr>)
            (merge_left all_months
               (size_groups (groupby id (map (\<lambda>r. strftime_B (index r)) (hw_rows df c ano)))))"
    by (simp add: calculate_hw_monthly_def hw_rows_def size_groups_key_column)
  then show ?thesis
    by (simp add: merge_counts filter_map comp_def)
qed

lemma all_months_month_name: "all_months = map month_name months"
  by (simp add: all_months_def months_def)

lemma month_name_inj: "month_name a = month_name b \<longleftrightarrow> a = b"
  by (cases a; cases b; simp)

lemma calculate_hw_monthly_C:
  "calculate_hw_monthly strftime_B_C df c ano =
     map (\<lambda>m. \<lparr>mes = month_name m,
               frequencia = length (filter (\<lambda>r. ts_month (index r) = m) (hw_rows df c ano))\<rparr>)
       months"
  by (simp add: calculate_hw_monthly_eq all_months_month_name comp_def strftime_B_C_def
      month_name_inj)

lemma count_by_month:
  "sum_list (map (\<lambda>m. length (filter (\<lambda>r. f r = m) xs)) months) = length xs"
proof (induction xs)
  case Nil
  then show ?case by (simp add: months_def)
next
  case (Cons a xs)
  then show ?case by (cases "f a") (simp_all add: months_def)
qed

lemma set_months: "m \<in> set months"
  by (cases m) (simp_all add: months_def)

text \<open>
  C3. In the C locale, in which the program runs, \<^verbatim>\<open>calculate_hw_monthly\<close> returns
  twelve rows, named January to December in this order; the row of a month holds the
  number of heat-wave-day Observations of the city and the year in that month, which is 0
  for a month that has none.
\<close>

theorem calculate_hw_monthly_twelve_rows:
  "length (calculate_hw_monthly strftime_B_C df c ano) = 12
   \<and> map mes (calculate_hw_monthly strftime_B_C df c ano) =
       [''January'', ''February'', ''March'', ''April'', ''May'', ''June'',
        ''July'', ''August'', ''September'', ''October'', ''November'', ''December'']
   \<and> calculate_hw_monthly strftime_B_C df c ano =
       map (\<lambda>m. \<lparr>mes = month_name m,
                 frequencia = length (filter (\<lambda>r. ts_month (index r) = m) (hw_rows df c ano))\<rparr>)
         [Jan, Feb, Mar, Apr, May, Jun, Jul, Aug, Sep, Oct, Nov, Dec]
   \<and> (\<forall>m. (\<forall>r \<in> set (hw_rows df c ano). ts_month (index r) \<noteq> m) \<longrightarrow>
          \<lparr>mes = month_name m, frequencia = 0\<rparr> \<in> set (calculate_hw_monthly strftime_B_C df c ano))"
proof -
  have zero: "\<lparr>mes = month_name m, frequencia = 0\<rparr> \<in> set (calculate_hw_monthly strftime_B_C df c ano)"
    if none: "\<forall>r \<in> set (hw_rows df c ano). ts_month (index r) \<noteq> m" for m
  proof -
    from none have "filter (\<lambda>r. ts_month (index r) = m) (hw_rows df c ano) = []"
      by (simp add: filter_empty_conv)
    then show ?thesis
      unfolding calculate_hw_monthly_C using set_months [of m] by force
  qed
  show ?thesis
    using zero by (simp add: calculate_hw_monthly_C months_def)
qed

lemma calculate_hw_monthly_example:
  "calculate_hw_monthly strftime_B_C example_df ''Recife'' 2020 =
     [\<lparr>mes = ''January'', frequencia = 2\<rparr>, \<lparr>mes = ''February'', frequencia = 0\<rparr>,
      \<lparr>mes = ''March'', frequencia = 1\<rparr>, \<lparr>mes = ''April'', frequencia = 0\<rparr>,
      \<lparr>mes = ''May'', frequencia = 0\<rparr>, \<lparr>mes = ''June'', frequencia = 0\<rparr>,
      \<lparr>mes = ''July'', frequencia = 0\<rparr>, \<lparr>mes = ''August'', frequencia = 0\<rparr>,
      \<lparr>mes = ''September'', frequencia = 0\<rparr>, \<lparr>mes = ''October'', frequencia = 0\<rparr>,
      \<lparr>mes = ''November'', frequencia = 0\<rparr>, \<lparr>mes = ''December'', frequencia = 0\<rparr>]"
  by code_simp

lemma hw_rows_example_no_Feb:
  "filter (\<lambda>r. ts_month (index r) = Feb) (hw_rows example_df ''Recife'' 2020) = []"
  by code_simp

theorem calculate_hw_monthly_twelve_rows_witness:
  "filter (\<lambda>r. ts_month (index r) = Feb) (hw_rows example_df ''Recife'' 2020) = []
   \<and> \<lparr>mes = ''February'', frequencia = 0\<rparr>
        \<in> set (calculate_hw_monthly strftime_B_C example_df ''Recife'' 2020)
   \<and> map frequencia (calculate_hw_monthly strftime_B_C example_df ''Recife'' 2020)
        = [2, 0, 1, 0, 0, 0, 0, 0, 0, 0, 0, 0]"
  using calculate_hw_monthly_twelve_rows [of example_df "''Recife''" 2020] hw_rows_example_no_Feb
  by (simp add: calculate_hw_monthly_example filter_empty_conv)

text \<open>
  C4. In the C locale, the twelve frequencies add up to the number of heat-wave-day
  Observations of the city and the year.
\<close>

theorem calculate_hw_monthly_sum:
  "sum_list (map frequencia (calculate_hw_monthly strftime_B_C df c ano))
     = length (hw_rows df c ano)"
  by (simp add: calculate_hw_monthly_C comp_def count_by_month)

lemma length_filter_disj:
  "\<forall>x \<in> set xs. \<not> (P x \<and> Q x) \<Longrightarrow>
     length (filter (\<lambda>x. P x \<or> Q x) xs) = length (filter P xs) + length (filter Q xs)"
  by (induction xs) auto

lemma count_by_name:
  "distinct names \<Longrightarrow>
     sum_list (map (\<lambda>m. length (filter (\<lambda>r. f r = m) xs)) names)
       = length (filter (\<lambda>r. f r \<in> set names) xs)"
proof (induction names)
  case Nil
  then show ?case by simp
next
  case (Cons n names)
  have "length (filter (\<lambda>r. f r = n \<or> f r \<in> set names) xs)
          = length (filter (\<lambda>r. f r = n) xs) + length (filter (\<lambda>r. f r \<in> set names) xs)"
    using Cons.prems by (intro length_filter_disj) auto
  with Cons show ?case by simp
qed

text \<open>
  C10. Whatever names \<^verbatim>\<open>strftime\<close> gives the months, \<^verbatim>\<open>calculate_hw_monthly\<close> returns
  the rows of the twelve English names and no other row, and does not fail. A
  heat-wave-day Observation whose month name is none of the twelve counts in no row: the
  frequencies add up to the number of the other ones, the result is the same with
  such Observations taken out of the dataset, and when every one is such, all twelve
  frequencies are 0.
\<close>

theorem calculate_hw_monthly_foreign_names:
  "map mes (calculate_hw_monthly strftime_B df c ano) = all_months
   \<and> length (calculate_hw_monthly strftime_B df c ano) = 12
   \<and> sum_list (map frequencia (calculate_hw_monthly strftime_B df c ano))
       = length (filter (\<lambda>r. strftime_B (index r) \<in> set all_months) (hw_rows df c ano))
   \<and> calculate_hw_monthly strftime_B (filter (\<lambda>r. strftime_B (index r) \<in> set all_months) df) c ano
       = calculate_hw_monthly strftime_B df c ano
   \<and> ((\<forall>r \<in> set (hw_rows df c ano). strftime_B (index r) \<notin> set all_months) \<longrightarrow>
        map frequencia (calculate_hw_monthly strftime_B df c ano) = replicate 12 0)"
proof -
  let ?canon = "\<lambda>r. strftime_B (index r) \<in> set all_months"
  let ?out = "calculate_hw_monthly strftime_B df c ano"
  have names: "map mes ?out = all_months"
    by (simp add: calculate_hw_monthly_eq comp_def)
  have len: "length ?out = 12"
    by (simp add: calculate_hw_monthly_eq all_months_def)
  have "distinct all_months"
    by (simp add: all_months_def)
  then have total: "sum_list (map frequencia ?out) = length (filter ?canon (hw_rows df c ano))"
    by (simp add: calculate_hw_monthly_eq comp_def count_by_name)
  have "hw_rows (filter ?canon df) c ano = filter ?canon (hw_rows df c ano)"
    by (auto simp: hw_rows_def intro: filter_cong)
  then have same: "calculate_hw_monthly strftime_B (filter ?canon df) c ano = ?out"
    unfolding calculate_hw_monthly_eq
    by (auto intro!: arg_cong [where f = length] filter_cong)
  have zeros: "map frequencia ?out = replicate 12 0"
    if "\<forall>r \<in> set (hw_rows df c ano). \<not> ?canon r"
  proof -
    from that have "filter (\<lambda>r. strftime_B (index r) = m) (hw_rows df c ano) = []"
      if "m \<in> set all_months" for m
      using that by (auto simp: filter_empty_conv)
    then have "map frequencia ?out = map (\<lambda>m. 0) all_months"
      unfolding calculate_hw_monthly_eq by (simp add: comp_def)
    then show ?thesis
      by (simp add: all_months_def numeral_eq_Suc)
  qed
  from names len total same zeros show ?thesis by blast
qed

lemma hw_rows_example_pt:
  "filter (\<lambda>r. strftime_B_pt (index r) \<in> set all_months) (hw_rows example_df ''Recife'' 2020) = []"
  by code_simp

theorem calculate_hw_monthly_foreign_names_witness:
  "filter (\<lambda>r. strftime_B_pt (index r) \<in> set all_months) (hw_rows example_df ''Recife'' 2020) = []
   \<and> length (hw_rows example_df ''Recife'' 2020) = 3
   \<and> map frequencia (calculate_hw_monthly strftime_B_pt example_df ''Recife'' 2020)
       = replicate 12 0"
proof -
  have "\<forall>r \<in> set (hw_rows example_df ''Recife'' 2020). strftime_B_pt (index r) \<notin> set all_months"
    using hw_rows_example_pt unfolding filter_empty_conv by blast
  with calculate_hw_monthly_foreign_names [of strftime_B_pt example_df "''Recife''" 2020]
  have "map frequencia (calculate_hw_monthly strftime_B_pt example_df ''Recife'' 2020)
          = replicate 12 0"
    by blast
  with hw_rows_example_pt hw_rows_example_Recife show ?thesis
    by blast
qed

section \<open>The rounding of doubles\<close>

text \<open>
  \<open>bitlen\<close> counts binary digits, \<open>ilog2\<close> is the exponent of a positive rational, and
  the quotient of two integers is rounded to an integer at most one half away.
\<close>

lemma bitlen_nonneg: "0 \<le> bitlen i"
  by (induction i rule: bitlen.induct) (subst bitlen.simps, auto)

lemma bitlen_pos: "0 < i \<Longrightarrow> 0 < bitlen i"
  using bitlen_nonneg [of "i div 2"] by (subst bitlen.simps) auto

lemma bitlen_bounds:
  "0 < i \<Longrightarrow> 2 ^ nat (bitlen i - 1) \<le> i \<and> i < 2 ^ nat (bitlen i)"
proof (induction i rule: bitlen.induct)
  case (1 i)
  show ?case
  proof (cases "i = 1")
    case True
    have "bitlen 1 = 1" by (subst bitlen.simps, subst bitlen.simps) simp
    with True show ?thesis by simp
  next
    case False
    with "1.prems" have pos: "0 < i div 2" by simp
    define b where "b = bitlen (i div 2)"
    from "1.IH" "1.prems" pos have IH: "2 ^ nat (b - 1) \<le> i div 2" "i div 2 < 2 ^ nat b"
      by (auto simp: b_def)
    have bpos: "0 < b" using pos by (simp add: b_def bitlen_pos)
    have bl: "bitlen i = 1 + b"
      using "1.prems" by (subst bitlen.simps) (simp add: b_def)
    have n1: "nat (1 + b - 1) = Suc (nat (b - 1))" using bpos by simp
    have n2: "nat (1 + b) = Suc (nat b)" using bpos by simp
    have "2 * 2 ^ nat (b - 1) \<le> i" using IH(1) by simp
    moreover have "i < 2 * 2 ^ nat b" using IH(2) by simp
    ultimately show ?thesis unfolding bl n1 n2 by simp
  qed
qed

lemma pow2_power_int: "pow2 e = power_int 2 e"
  by (simp add: pow2_def power_int_def field_simps)

lemma pow2_pos: "0 < pow2 e"
  by (simp add: pow2_power_int)

lemma pow2_add: "pow2 (a + b) = pow2 a * pow2 b"
  by (simp add: pow2_power_int power_int_add)

lemma pow2_mono: "a \<le> b \<Longrightarrow> pow2 a \<le> pow2 b"
  by (simp add: pow2_power_int power_int_increasing)

lemma nearest_even_error:
  assumes "0 < d"
  shows "\<bar>of_int (nearest_even n d) - of_int n / of_int d\<bar> \<le> (1 / 2 :: rat)"
proof -
  define f where "f = n div d"
  define r where "r = n mod d"
  define x :: rat where "x = of_int r"
  define y :: rat where "y = of_int d"
  have n: "n = f * d + r" by (simp add: f_def r_def)
  have r: "0 \<le> r" "r < d" using assms by (simp_all add: r_def)
  have y: "0 < y" using assms by (simp add: y_def)
  have x: "0 \<le> x" "x < y" using r by (simp_all add: x_def y_def)
  have q: "of_int n / of_int d = (of_int f :: rat) + x / y"
    using assms by (simp add: n x_def y_def field_simps)
  have ne: "nearest_even n d =
      (if 2 * r < d then f else if d < 2 * r then f + 1 else if even f then f else f + 1)"
    by (simp add: nearest_even_def f_def r_def)
  consider "2 * r < d" | "d < 2 * r" | "2 * r = d" by linarith
  then show ?thesis
  proof cases
    case 1
    then have "(of_int (2 * r) :: rat) < of_int d" by (simp only: of_int_less_iff)
    then have "2 * x < y" by (simp add: x_def y_def)
    then have "x / y \<le> 1 / 2" using y by (simp add: field_simps)
    moreover have "0 \<le> x / y" using x y by simp
    ultimately show ?thesis using 1 by (simp add: ne q)
  next
    case 2
    then have "(of_int d :: rat) < of_int (2 * r)" by (simp only: of_int_less_iff)
    then have "y < 2 * x" by (simp add: x_def y_def)
    then have "1 / 2 \<le> x / y" using y by (simp add: field_simps)
    moreover have "x / y \<le> 1" using x y by (simp add: field_simps)
    ultimately show ?thesis using 2 by (simp add: ne q)
  next
    case 3
    then have "(of_int (2 * r) :: rat) = of_int d" by (simp only: of_int_eq_iff)
    then have "2 * x = y" by (simp add: x_def y_def)
    then have "x / y = 1 / 2" using y by (simp add: field_simps)
    then show ?thesis using 3 by (simp add: ne q)
  qed
qed

lemma quotient_of_pos:
  assumes "0 < v" and "quotient_of v = (p, q)"
  shows "0 < p" "0 < q" "v = of_int p / of_int q"
proof -
  show q: "0 < q" using assms(2) by (rule quotient_of_denom_pos)
  show v: "v = of_int p / of_int q" using assms(2) by (rule quotient_of_div)
  show "0 < p"
    using assms(1) q unfolding v by (simp add: zero_less_divide_iff)
qed

lemma pow2_nonneg_eq: "0 \<le> e \<Longrightarrow> pow2 e = of_int (2 ^ nat e)"
  by (simp add: pow2_def)

lemma pow2_neg_eq: "e < 0 \<Longrightarrow> pow2 e = 1 / of_int (2 ^ nat (- e))"
  by (simp add: pow2_def)

lemma bitlen_bounds_rat:
  assumes "0 < i"
  shows "pow2 (bitlen i - 1) \<le> of_int i" "of_int i < pow2 (bitlen i)"
proof -
  have b: "0 \<le> bitlen i - 1" "0 \<le> bitlen i"
    using bitlen_pos [OF assms] by simp_all
  from bitlen_bounds [OF assms] have "(of_int (2 ^ nat (bitlen i - 1)) :: rat) \<le> of_int i"
    by (simp only: of_int_le_iff)
  then show "pow2 (bitlen i - 1) \<le> of_int i"
    by (simp only: pow2_nonneg_eq [OF b(1)])
  from bitlen_bounds [OF assms] have "(of_int i :: rat) < of_int (2 ^ nat (bitlen i))"
    by (simp only: of_int_less_iff)
  then show "of_int i < pow2 (bitlen i)"
    by (simp only: pow2_nonneg_eq [OF b(2)])
qed

lemma ilog2_bounds:
  assumes "0 < v"
  shows "pow2 (ilog2 v) \<le> v \<and> v < pow2 (ilog2 v + 1)"
proof -
  obtain p q where pq: "quotient_of v = (p, q)" by (cases "quotient_of v")
  note pos = quotient_of_pos [OF assms pq]
  define d where "d = bitlen p - bitlen q"
  define P :: rat where "P = of_int p"
  define Q :: rat where "Q = of_int q"
  have PQ: "0 < P" "0 < Q" "v = P / Q" using pos by (simp_all add: P_def Q_def)
  note p = bitlen_bounds_rat [OF pos(1), folded P_def]
  note q = bitlen_bounds_rat [OF pos(2), folded Q_def]
  have test: "(if 0 \<le> d then q * 2 ^ nat d \<le> p else q \<le> p * 2 ^ nat (- d)) \<longleftrightarrow> pow2 d \<le> v"
  proof (cases "0 \<le> d")
    case True
    have "pow2 d \<le> v \<longleftrightarrow> pow2 d * Q \<le> P"
      unfolding PQ(3) using PQ(1,2) by (simp add: field_simps)
    also have "\<dots> \<longleftrightarrow> (of_int (q * 2 ^ nat d) :: rat) \<le> of_int p"
      by (simp add: pow2_nonneg_eq [OF True] P_def Q_def mult.commute)
    also have "\<dots> \<longleftrightarrow> q * 2 ^ nat d \<le> p"
      by (simp only: of_int_le_iff)
    finally show ?thesis using True by simp
  next
    case False
    then have neg: "d < 0" by simp
    have K: "(0::rat) < of_int (2 ^ nat (- d))" by simp
    have "pow2 d \<le> v \<longleftrightarrow> Q \<le> P * of_int (2 ^ nat (- d))"
      unfolding pow2_neg_eq [OF neg] PQ(3) using PQ(1,2) K
      by (simp add: field_simps)
    also have "\<dots> \<longleftrightarrow> (of_int q :: rat) \<le> of_int (p * 2 ^ nat (- d))"
      by (simp add: P_def Q_def)
    also have "\<dots> \<longleftrightarrow> q \<le> p * 2 ^ nat (- d)"
      by (simp only: of_int_le_iff)
    finally show ?thesis using False by simp
  qed
  have il: "ilog2 v = (if pow2 d \<le> v then d else d - 1)"
    unfolding ilog2_def pq Let_def prod.case d_def [symmetric] test by (rule refl)
  have "pow2 (d - 1) * Q \<le> pow2 (d - 1) * pow2 (bitlen q)"
    using q(2) pow2_pos [of "d - 1"] by simp
  also have "\<dots> = pow2 (bitlen p - 1)"
    by (simp add: pow2_add [symmetric] d_def)
  also have "\<dots> \<le> P" by (rule p(1))
  finally have lo: "pow2 (d - 1) \<le> v"
    unfolding PQ(3) using PQ(1,2) by (simp add: field_simps)
  have "P < pow2 (bitlen p)" by (rule p(2))
  also have "\<dots> = pow2 (d + 1) * pow2 (bitlen q - 1)"
    by (simp add: pow2_add [symmetric] d_def)
  also have "\<dots> \<le> pow2 (d + 1) * Q"
    using q(1) pow2_pos [of "d + 1"] by simp
  finally have hi: "v < pow2 (d + 1)"
    unfolding PQ(3) using PQ(1,2) by (simp add: field_simps)
  show ?thesis
    using lo hi by (auto simp: il not_le)
qed


lemma scaled_quotient:
  assumes "0 < v" and "scaled e v = (n, d)"
  shows "0 < d" "of_int n / of_int d = v / pow2 e"
proof -
  obtain p q where pq: "quotient_of v = (p, q)" by (cases "quotient_of v")
  note pos = quotient_of_pos [OF assms(1) pq]
  show "0 < d"
    using assms(2) pos(2) by (auto simp: scaled_def pq split: if_splits)
  show "of_int n / of_int d = v / pow2 e"
  proof (cases "0 \<le> e")
    case True
    with assms(2) have "n = p" "d = q * 2 ^ nat e"
      by (simp_all add: scaled_def pq)
    then show ?thesis
      unfolding pos(3) pow2_nonneg_eq [OF True] by simp
  next
    case False
    then have neg: "e < 0" by simp
    with assms(2) have "n = p * 2 ^ nat (- e)" "d = q"
      by (simp_all add: scaled_def pq)
    then show ?thesis
      unfolding pos(3) pow2_neg_eq [OF neg] by simp
  qed
qed

text \<open>
  \<open>round53\<close> gives a number of 53 significant bits that is nearest to its argument: a
  mantissa between \<open>2 ^ 52\<close> and \<open>2 ^ 53\<close> at the exponent of the argument, off by at most
  half a unit of the last place.
\<close>

lemma round53_nearest:
  assumes "v \<noteq> 0"
  shows "\<exists>m. round53 v = sgn v * (of_int m * pow2 (ilog2 \<bar>v\<bar> - 52))
     \<and> 2 ^ 52 \<le> m \<and> m \<le> 2 ^ 53
     \<and> \<bar>round53 v - v\<bar> \<le> pow2 (ilog2 \<bar>v\<bar> - 52) / 2"
proof -
  define e where "e = ilog2 \<bar>v\<bar> - 52"
  define x where "x = \<bar>v\<bar> / pow2 e"
  obtain n d where nd: "scaled e \<bar>v\<bar> = (n, d)" by (cases "scaled e \<bar>v\<bar>")
  define m where "m = nearest_even n d"
  from assms have pos: "0 < \<bar>v\<bar>" by simp
  note sc = scaled_quotient [OF pos nd]
  have r: "round53 v = sgn v * (of_int m * pow2 e)"
    using assms by (simp add: round53_def e_def [symmetric] nd m_def)
  have near: "\<bar>of_int m - x\<bar> \<le> 1 / 2"
    using nearest_even_error [OF sc(1), of n] by (simp add: m_def x_def sc(2))
  have "e + 52 = ilog2 \<bar>v\<bar>" "e + 53 = ilog2 \<bar>v\<bar> + 1"
    by (simp_all add: e_def)
  with ilog2_bounds [OF pos] have "pow2 (e + 52) \<le> \<bar>v\<bar>" "\<bar>v\<bar> < pow2 (e + 53)"
    by (simp_all only:)
  then have "pow2 52 * pow2 e \<le> \<bar>v\<bar>" "\<bar>v\<bar> < pow2 53 * pow2 e"
    by (simp_all add: pow2_add [symmetric] add.commute)
  then have x: "pow2 52 \<le> x" "x < pow2 53"
    using pow2_pos [of e] by (simp_all add: x_def field_simps)
  have p52: "pow2 52 = of_int (2 ^ 52)" and p53: "pow2 53 = of_int (2 ^ 53)"
    by (simp_all add: pow2_def)
  have "(of_int (2 ^ 52) :: rat) - 1 / 2 \<le> of_int m"
    using near x(1) unfolding p52 by linarith
  then have "(of_int (2 ^ 52 - 1) :: rat) < of_int m"
    by simp
  then have lo: "2 ^ 52 \<le> m"
    unfolding of_int_less_iff by simp
  have "(of_int m :: rat) < of_int (2 ^ 53) + 1 / 2"
    using near x(2) unfolding p53 by linarith
  then have "(of_int m :: rat) < of_int (2 ^ 53 + 1)"
    by simp
  then have hi: "m \<le> 2 ^ 53"
    unfolding of_int_less_iff by simp
  have v: "v = sgn v * (x * pow2 e)"
    using pow2_pos [of e] by (simp add: x_def sgn_mult_abs)
  have "round53 v - v = sgn v * ((of_int m - x) * pow2 e)"
    by (subst (2) v) (simp add: r algebra_simps)
  then have "\<bar>round53 v - v\<bar> = \<bar>of_int m - x\<bar> * pow2 e"
    using assms pow2_pos [of e] by (simp add: abs_mult abs_sgn_eq)
  also have "\<dots> \<le> 1 / 2 * pow2 e"
    using near pow2_pos [of e] by (intro mult_right_mono) simp_all
  finally have err: "\<bar>round53 v - v\<bar> \<le> pow2 e / 2" by simp
  from r lo hi err show ?thesis
    unfolding e_def by blast
qed

section \<open>\<^verbatim>\<open>calculate_anomalies\<close>\<close>

lemma calculate_anomalies_eq:
  "calculate_anomalies ops df c =
     Inr (map (\<lambda>ano. \<lparr>a_year = ano,
                       a_tempMed = group_mean ops (map tempMed (city_year_rows df c ano)),
                       anomalia = fsub ops (group_mean ops (map tempMed (city_year_rows df c ano)))
                                    (series_mean ops (map tempMed (city_rows df c)))\<rparr>)
            (sort (remdups (map year (city_rows df c)))))"
  by (simp add: calculate_anomalies_def groupby_def city_rows_def city_year_rows_def comp_def)

lemma city_year_rows_single:
  "year ` set (city_rows df c) = {ano} \<Longrightarrow> city_year_rows df c ano = city_rows df c"
proof -
  assume "year ` set (city_rows df c) = {ano}"
  then have "\<forall>r \<in> set df. cidade r = c \<longrightarrow> year r = ano"
    by (auto simp: city_rows_def)
  then show ?thesis
    unfolding city_rows_def city_year_rows_def by (auto intro: filter_cong)
qed

text \<open>Some values of the rounding, as a Python interpreter gives them.\<close>

lemma round53_examples:
  "round53 (1 / 10) = 3602879701896397 / 36028797018963968
   \<and> round53 (1 / 3) = 6004799503160661 / 18014398509481984
   \<and> round53 (3 / 4) = 3 / 4
   \<and> round53 9007199254740993 = 9007199254740992
   \<and> round53 9007199254740995 = 9007199254740996
   \<and> round53 (- 9007199254740995) = - 9007199254740996
   \<and> dbl (289 / 10) = Fin (4067313413468979 / 140737488355328)
   \<and> dbl (248 / 10) = Fin (6980579422424269 / 281474976710656)
   \<and> dbl (215 / 10) = Fin (43 / 2)"
  by code_simp

text \<open>A finite double minus itself is 0.\<close>

lemma d_sub_self: "d_sub (Fin a) (Fin a) = Fin 0"
  by (simp add: round53_def)

text \<open>
  The two means of 21.5, 24.8 and 28.9: \<^verbatim>\<open>Series.mean\<close> gives 25.066666666666663 and
  the mean of the group 25.066666666666666, one unit in the last place more.
\<close>

lemma nanmean_example:
  "nanmean [dbl (215 / 10), dbl (248 / 10), dbl (289 / 10)]
     = Fin (440977463513361 / 17592186044416)"
  by code_simp

lemma kahan_mean_example:
  "kahan_mean [dbl (215 / 10), dbl (248 / 10), dbl (289 / 10)]
     = Fin (7055639416213777 / 281474976710656)"
  by code_simp

text \<open>
  C6, as stated, fails: the anomaly of a city with one year of data is not always 0. The
  baseline and the mean of the year are two float routines over the same readings, and
  for the readings 21.5, 24.8 and 28.9 of one year they differ in the last bit: the
  anomaly is \<open>2 ^ -48\<close>, about 3.55e-15.
\<close>

theorem calculate_anomalies_single_year_counterexample:
  "map year (city_rows example_single_year_df ''Natal'') = [2020, 2020, 2020]
   \<and> map tempMed (city_rows example_single_year_df ''Natal'')
       = [dbl (215 / 10), dbl (248 / 10), dbl (289 / 10)]
   \<and> calculate_anomalies ieee_ops example_single_year_df ''Natal'' =
       Inr [\<lparr>a_year = 2020, a_tempMed = Fin (7055639416213777 / 281474976710656),
             anomalia = Fin (1 / 281474976710656)\<rparr>]
   \<and> calculate_anomalies ieee_ops example_single_year_df ''Natal'' \<noteq>
       Inr [\<lparr>a_year = 2020, a_tempMed = Fin (7055639416213777 / 281474976710656),
             anomalia = Fin 0\<rparr>]"
proof -
  have yrs: "map year (city_rows example_single_year_df ''Natal'') = [2020, 2020, 2020]"
    by code_simp
  have temps: "map tempMed (city_rows example_single_year_df ''Natal'')
       = [dbl (215 / 10), dbl (248 / 10), dbl (289 / 10)]"
    by code_simp
  have res: "calculate_anomalies ieee_ops example_single_year_df ''Natal'' =
       Inr [\<lparr>a_year = 2020, a_tempMed = Fin (7055639416213777 / 281474976710656),
             anomalia = Fin (1 / 281474976710656)\<rparr>]"
    by code_simp
  from yrs temps res show ?thesis
    by simp
qed

text \<open>
  C6, amended. For a city with at least one Observation, \<^verbatim>\<open>calculate_anomalies\<close>
  returns one row for each year the city has Observations in, the years strictly
  ascending; the mean of a row is the mean \<^verbatim>\<open>tempMed\<close> of the city in that year as the
  \<^verbatim>\<open>groupby\<close> computes it, and its anomaly is the float difference of this mean and the
  baseline, the mean \<^verbatim>\<open>tempMed\<close> of all Observations of the city as \<^verbatim>\<open>Series.mean\<close>
  computes it. When the city has one year of data only, the result is the row of that
  year, and its anomaly is the difference of the two means of the same readings; it need
  not be 0. This holds whatever the float routines compute.
\<close>

theorem calculate_anomalies_rows:
  assumes "city_rows df c \<noteq> []"
  shows "\<exists>rows. calculate_anomalies ops df c = Inr rows
     \<and> sorted_wrt (<) (map a_year rows)
     \<and> set (map a_year rows) = year ` set (city_rows df c)
     \<and> (\<forall>row \<in> set rows.
          a_tempMed row = group_mean ops (map tempMed (city_year_rows df c (a_year row)))
          \<and> anomalia row =
              fsub ops (group_mean ops (map tempMed (city_year_rows df c (a_year row))))
                (series_mean ops (map tempMed (city_rows df c))))
     \<and> (\<forall>ano. year ` set (city_rows df c) = {ano} \<longrightarrow>
          rows = [\<lparr>a_year = ano,
                   a_tempMed = group_mean ops (map tempMed (city_rows df c)),
                   anomalia = fsub ops (group_mean ops (map tempMed (city_rows df c)))
                                (series_mean ops (map tempMed (city_rows df c)))\<rparr>])"
proof -
  define years where "years = sort (remdups (map year (city_rows df c)))"
  define row_of where "row_of = (\<lambda>ano. \<lparr>a_year = ano,
       a_tempMed = group_mean ops (map tempMed (city_year_rows df c ano)),
       anomalia = fsub ops (group_mean ops (map tempMed (city_year_rows df c ano)))
                    (series_mean ops (map tempMed (city_rows df c)))\<rparr>)"
  define rows where "rows = map row_of years"
  have res: "calculate_anomalies ops df c = Inr rows"
    by (simp add: calculate_anomalies_eq rows_def row_of_def years_def)
  have yrs: "map a_year rows = years"
    by (simp add: rows_def row_of_def comp_def)
  have set_years: "set years = year ` set (city_rows df c)"
    by (simp add: years_def)
  have 1: "sorted_wrt (<) (map a_year rows)"
    unfolding yrs by (simp add: years_def strict_sorted_iff)
  have 2: "set (map a_year rows) = year ` set (city_rows df c)"
    unfolding yrs by (rule set_years)
  have 3: "\<forall>row \<in> set rows.
          a_tempMed row = group_mean ops (map tempMed (city_year_rows df c (a_year row)))
          \<and> anomalia row =
              fsub ops (group_mean ops (map tempMed (city_year_rows df c (a_year row))))
                (series_mean ops (map tempMed (city_rows df c)))"
    by (auto simp: rows_def row_of_def)
  have 4: "rows = [\<lparr>a_year = ano,
                   a_tempMed = group_mean ops (map tempMed (city_rows df c)),
                   anomalia = fsub ops (group_mean ops (map tempMed (city_rows df c)))
                                (series_mean ops (map tempMed (city_rows df c)))\<rparr>]"
    if single: "year ` set (city_rows df c) = {ano}" for ano
  proof -
    from single have "set years = {ano}"
      by (simp add: set_years)
    moreover have "distinct years"
      by (simp add: years_def)
    ultimately have years: "years = [ano]"
      by (cases years) (auto simp: subset_singleton_iff dest: subset_singletonD)
    show ?thesis
      by (simp add: rows_def years row_of_def city_year_rows_single [OF single])
  qed
  from res 1 2 3 4 show ?thesis by blast
qed

lemma city_rows_example_Fortaleza: "length (city_rows example_df ''Fortaleza'') = 3"
  by code_simp

lemma calculate_anomalies_example_Fortaleza:
  "calculate_anomalies ieee_ops example_df ''Fortaleza'' =
       Inr [\<lparr>a_year = 2019, a_tempMed = Fin 28, anomalia = Fin (- 1)\<rparr>,
            \<lparr>a_year = 2020, a_tempMed = Fin 30, anomalia = Fin 1\<rparr>,
            \<lparr>a_year = 2021, a_tempMed = Fin 29, anomalia = Fin 0\<rparr>]"
  by code_simp

lemma city_rows_example_Olinda:
  "city_rows example_single_year_df ''Olinda'' =
     [reading ''Olinda'' 2021 Jan 1 NaN ''FALSE'', reading ''Olinda'' 2021 Jan 2 NaN ''FALSE'']"
  by (simp add: city_rows_def example_single_year_df_def reading_def)

lemma means_of_empty_cells: "kahan_mean [NaN, NaN] = NaN \<and> nanmean [NaN, NaN] = NaN"
  by code_simp

theorem calculate_anomalies_rows_witness:
  "length (city_rows example_df ''Fortaleza'') = 3
   \<and> calculate_anomalies ieee_ops example_df ''Fortaleza'' =
       Inr [\<lparr>a_year = 2019, a_tempMed = Fin 28, anomalia = Fin (- 1)\<rparr>,
            \<lparr>a_year = 2020, a_tempMed = Fin 30, anomalia = Fin 1\<rparr>,
            \<lparr>a_year = 2021, a_tempMed = Fin 29, anomalia = Fin 0\<rparr>]
   \<and> map year (city_rows example_single_year_df ''Olinda'') = [2021, 2021]
   \<and> map tempMed (city_rows example_single_year_df ''Olinda'') = [NaN, NaN]
   \<and> calculate_anomalies ieee_ops example_single_year_df ''Olinda'' =
       Inr [\<lparr>a_year = 2021, a_tempMed = NaN, anomalia = NaN\<rparr>]"
proof -
  have yrs: "map year (city_rows example_single_year_df ''Olinda'') = [2021, 2021]"
    by (simp add: city_rows_example_Olinda reading_def)
  have temps: "map tempMed (city_rows example_single_year_df ''Olinda'') = [NaN, NaN]"
    by (simp add: city_rows_example_Olinda reading_def)
  have nonempty: "city_rows example_single_year_df ''Olinda'' \<noteq> []"
    by (simp add: city_rows_example_Olinda)
  have single: "year ` set (city_rows example_single_year_df ''Olinda'') = {2021}"
    using arg_cong [OF yrs, of set] by simp
  have "\<exists>rows. calculate_anomalies ieee_ops example_single_year_df ''Olinda'' = Inr rows
     \<and> (\<forall>ano. year ` set (city_rows example_single_year_df ''Olinda'') = {ano} \<longrightarrow>
          rows = [\<lparr>a_year = ano,
                   a_tempMed = group_mean ieee_ops
                     (map tempMed (city_rows example_single_year_df ''Olinda'')),
                   anomalia = fsub ieee_ops
                     (group_mean ieee_ops
                        (map tempMed (city_rows example_single_year_df ''Olinda'')))
                     (series_mean ieee_ops
                        (map tempMed (city_rows example_single_year_df ''Olinda'')))\<rparr>])"
    using calculate_anomalies_rows [OF nonempty, of ieee_ops]
    apply (elim exE conjE)
    subgoal for rows
      by (rule exI [of _ rows]) (rule conjI)
    done
  then obtain rows where rows: "calculate_anomalies ieee_ops example_single_year_df ''Olinda''
        = Inr rows"
    and one: "\<forall>ano. year ` set (city_rows example_single_year_df ''Olinda'') = {ano} \<longrightarrow>
          rows = [\<lparr>a_year = ano,
                   a_tempMed = group_mean ieee_ops
                     (map tempMed (city_rows example_single_year_df ''Olinda'')),
                   anomalia = fsub ieee_ops
                     (group_mean ieee_ops
                        (map tempMed (city_rows example_single_year_df ''Olinda'')))
                     (series_mean ieee_ops
                        (map tempMed (city_rows example_single_year_df ''Olinda'')))\<rparr>]"
    by (elim exE conjE)
  from one single
  have "rows = [\<lparr>a_year = 2021,
                   a_tempMed = group_mean ieee_ops
                     (map tempMed (city_rows example_single_year_df ''Olinda'')),
                   anomalia = fsub ieee_ops
                     (group_mean ieee_ops
                        (map tempMed (city_rows example_single_year_df ''Olinda'')))
                     (series_mean ieee_ops
                        (map tempMed (city_rows example_single_year_df ''Olinda'')))\<rparr>]"
    by (elim allE [of _ 2021] impE)
  then have "rows = [\<lparr>a_year = 2021, a_tempMed = NaN, anomalia = NaN\<rparr>]"
    by (simp add: temps ieee_ops_def means_of_empty_cells)
  with rows have "calculate_anomalies ieee_ops example_single_year_df ''Olinda'' =
       Inr [\<lparr>a_year = 2021, a_tempMed = NaN, anomalia = NaN\<rparr>]"
    by simp
  with city_rows_example_Fortaleza calculate_anomalies_example_Fortaleza yrs temps
  show ?thesis by (intro conjI)
qed

text \<open>
  C1, as stated, fails: \<^verbatim>\<open>calculate_anomalies\<close> raises nothing. For a city without
  Observations the baseline is NaN, the grouping has no group, and the function returns
  the empty frame.
\<close>

theorem calculate_anomalies_unknown_city_counterexample:
  "city_rows example_df ''Natal'' = []
   \<and> calculate_anomalies ieee_ops example_df ''Natal'' \<noteq> Inl UnknownCityError
   \<and> calculate_anomalies ieee_ops example_df ''Natal'' = Inr []"
proof -
  have "city_rows example_df ''Natal'' = []"
    by code_simp
  then show ?thesis
    by (simp add: calculate_anomalies_eq)
qed

text \<open>
  C1, amended. For every dataset and every city without Observations in it,
  \<^verbatim>\<open>calculate_anomalies\<close> returns the empty result and does not fail.
\<close>

theorem calculate_anomalies_unknown_city:
  "city_rows df c = [] \<Longrightarrow> calculate_anomalies ops df c = Inr []"
  by (simp add: calculate_anomalies_eq)

theorem calculate_anomalies_unknown_city_witness:
  "city_rows example_sorted_df ''Manaus'' = []
   \<and> calculate_anomalies ieee_ops example_sorted_df ''Manaus'' = Inr []"
proof -
  have "city_rows example_sorted_df ''Manaus'' = []"
    by code_simp
  with calculate_anomalies_unknown_city [of example_sorted_df "''Manaus''" ieee_ops]
  show ?thesis by simp
qed

section \<open>The callbacks\<close>

lemma update_temp_plot_eq:
  "update_temp_plot df c ano =
     Inr \<lparr>t_traces =
            [\<lparr>sc_x = map index (filterDaily df c ano), sc_y = map tempMax (filterDaily df c ano),
              sc_mode = ''lines'', sc_name = ''M'' @ [CHR 0xC3, CHR 0xA1] @ ''xima'',
              sc_line_color = ''red''\<rparr>,
             \<lparr>sc_x = map index (filterDaily df c ano), sc_y = map tempMed (filterDaily df c ano),
              sc_mode = ''lines'', sc_name = ''M'' @ [CHR 0xC3, CHR 0xA9] @ ''dia'',
              sc_line_color = ''blue''\<rparr>,
             \<lparr>sc_x = map index (filterDaily df c ano), sc_y = map tempMin (filterDaily df c ano),
              sc_mode = ''lines'', sc_name = ''M'' @ [CHR 0xC3, CHR 0xAD] @ ''nima'',
              sc_line_color = ''green''\<rparr>],
          t_title = ''Temperaturas em '' @ c @ '' ('' @ str_int ano @ '')'',
          xaxis_title = ''Data'',
          yaxis_title = ''Temperatura ('' @ [CHR 0xC2, CHR 0xB0] @ ''C)''\<rparr>"
  unfolding update_temp_plot_def Let_def by (rule refl)

lemma update_polar_plot_eq:
  "update_polar_plot strftime_B df c ano =
     Inr \<lparr>p_traces =
            [\<lparr>sp_r = map frequencia (calculate_hw_monthly strftime_B df c ano),
              sp_theta = map mes (calculate_hw_monthly strftime_B df c ano),
              sp_fill = ''toself'', sp_mode = ''lines+markers'',
              sp_line_color = ''blue'', sp_marker_color = ''blue''\<rparr>],
          radialaxis_visible = True,
          p_title = ''Frequ'' @ [CHR 0xC3, CHR 0xAA]
                      @ ''ncia de Ondas de Calor em '' @ c @ '' - '' @ str_int ano,
          showlegend = False\<rparr>"
  unfolding update_polar_plot_def Let_def by (rule refl)

lemma hw_rows_filterDaily: "filterDaily df c ano = [] \<Longrightarrow> hw_rows df c ano = []"
  by (auto simp: filterDaily_def hw_rows_def filter_empty_conv)

lemma calculate_hw_monthly_no_rows:
  "hw_rows df c ano = [] \<Longrightarrow>
     map frequencia (calculate_hw_monthly strftime_B df c ano) = replicate 12 0"
  by (simp add: calculate_hw_monthly_eq comp_def all_months_def numeral_eq_Suc)

text \<open>
  C2, as stated, fails: the callbacks check nothing. For a city that is not in
  \<^verbatim>\<open>cidades\<close> and a year that is not in \<^verbatim>\<open>anos\<close>, with no Observation, both return a
  figure.
\<close>

theorem dispatcher_validation_counterexample:
  "''Natal'' \<notin> set (cidades example_df)
   \<and> 1999 \<notin> set (anos example_df)
   \<and> filterDaily example_df ''Natal'' 1999 = []
   \<and> \<not> isl (update_temp_plot example_df ''Natal'' 1999)
   \<and> update_temp_plot example_df ''Natal'' 1999 \<noteq> Inl InvalidSelectionError
   \<and> \<not> isl (update_polar_plot strftime_B_C example_df ''Natal'' 1999)
   \<and> update_polar_plot strftime_B_C example_df ''Natal'' 1999 \<noteq> Inl InvalidSelectionError"
proof -
  have "''Natal'' \<notin> set (cidades example_df)"
    by code_simp
  moreover have "1999 \<notin> set (anos example_df)"
    by code_simp
  moreover have "filterDaily example_df ''Natal'' 1999 = []"
    by code_simp
  ultimately show ?thesis
    by (simp add: update_temp_plot_eq update_polar_plot_eq)
qed

text \<open>
  C2, amended. The callbacks make no membership check: for every city and every year,
  in the known sets or not, \<^verbatim>\<open>update_temp_plot\<close> returns a figure whose three traces
  hold the dates and the maximal, mean and minimal temperatures of the rows of the city
  and the year, and \<^verbatim>\<open>update_polar_plot\<close> returns a figure whose trace holds the rows of
  \<^verbatim>\<open>calculate_hw_monthly\<close>. For a city and a year with no Observation the three traces
  are empty and the polar trace holds frequency 0 for each of the twelve months.
\<close>

theorem dispatcher_no_validation:
  "(\<exists>fig. update_temp_plot df c ano = Inr fig
        \<and> map sc_x (t_traces fig) = replicate 3 (map index (filterDaily df c ano))
        \<and> map sc_y (t_traces fig) =
            [map tempMax (filterDaily df c ano), map tempMed (filterDaily df c ano),
             map tempMin (filterDaily df c ano)]
        \<and> (filterDaily df c ano = [] \<longrightarrow>
             map sc_x (t_traces fig) = [[], [], []] \<and> map sc_y (t_traces fig) = [[], [], []]))
   \<and> (\<exists>fig. update_polar_plot strftime_B df c ano = Inr fig
        \<and> map sp_r (p_traces fig) = [map frequencia (calculate_hw_monthly strftime_B df c ano)]
        \<and> map sp_theta (p_traces fig) = [all_months]
        \<and> (filterDaily df c ano = [] \<longrightarrow> map sp_r (p_traces fig) = [replicate 12 0]))"
proof (intro conjI)
  show "\<exists>fig. update_temp_plot df c ano = Inr fig
        \<and> map sc_x (t_traces fig) = replicate 3 (map index (filterDaily df c ano))
        \<and> map sc_y (t_traces fig) =
            [map tempMax (filterDaily df c ano), map tempMed (filterDaily df c ano),
             map tempMin (filterDaily df c ano)]
        \<and> (filterDaily df c ano = [] \<longrightarrow>
             map sc_x (t_traces fig) = [[], [], []] \<and> map sc_y (t_traces fig) = [[], [], []])"
    unfolding update_temp_plot_eq by (simp add: numeral_3_eq_3)
  have names: "map mes (calculate_hw_monthly strftime_B df c ano) = all_months"
    by (simp add: calculate_hw_monthly_eq comp_def)
  show "\<exists>fig. update_polar_plot strftime_B df c ano = Inr fig
        \<and> map sp_r (p_traces fig) = [map frequencia (calculate_hw_monthly strftime_B df c ano)]
        \<and> map sp_theta (p_traces fig) = [all_months]
        \<and> (filterDaily df c ano = [] \<longrightarrow> map sp_r (p_traces fig) = [replicate 12 0])"
    unfolding update_polar_plot_eq
    using hw_rows_filterDaily [of df c ano] calculate_hw_monthly_no_rows [of df c ano strftime_B]
    by (simp add: names)
qed

theorem dispatcher_no_validation_witness:
  "filterDaily example_sorted_df ''Recife'' 2021 = []
   \<and> ''Recife'' \<in> set (cidades example_sorted_df)
   \<and> 2021 \<notin> set (anos example_sorted_df)
   \<and> (\<exists>fig. update_temp_plot example_sorted_df ''Recife'' 2021 = Inr fig
         \<and> map sc_x (t_traces fig) = [[], [], []] \<and> map sc_y (t_traces fig) = [[], [], []])
   \<and> (\<exists>fig. update_polar_plot strftime_B_C example_sorted_df ''Recife'' 2021 = Inr fig
         \<and> map sp_r (p_traces fig) = [replicate 12 0])"
proof -
  have empty: "filterDaily example_sorted_df ''Recife'' 2021 = []"
    by code_simp
  have city: "''Recife'' \<in> set (cidades example_sorted_df)"
    by code_simp
  have yr: "2021 \<notin> set (anos example_sorted_df)"
    by code_simp
  from dispatcher_no_validation [of example_sorted_df "''Recife''" 2021 strftime_B_C] empty
  have "(\<exists>fig. update_temp_plot example_sorted_df ''Recife'' 2021 = Inr fig
         \<and> map sc_x (t_traces fig) = [[], [], []] \<and> map sc_y (t_traces fig) = [[], [], []])
   \<and> (\<exists>fig. update_polar_plot strftime_B_C example_sorted_df ''Recife'' 2021 = Inr fig
         \<and> map sp_r (p_traces fig) = [replicate 12 0])"
    by auto
  with empty city yr show ?thesis
    by (intro conjI) simp_all
qed

section \<open>The daily rows\<close>

lemma ascending_filter: "ascending rows \<Longrightarrow> ascending (filter P rows)"
  unfolding ascending_def by (rule sorted_wrt_filter)

text \<open>
  C7, as stated, fails: \<^verbatim>\<open>update_temp_plot\<close> does not sort. The rows of Recife in 2020
  come out as the dataset has them, the one of March before those of January.
\<close>

theorem filterDaily_ascending_counterexample:
  "map (\<lambda>r. (ts_month (index r), ts_day (index r))) (filterDaily example_df ''Recife'' 2020)
     = [(Mar, 9), (Jan, 5), (Jan, 6), (Feb, 1)]
   \<and> \<not> ascending (filterDaily example_df ''Recife'' 2020)"
  by code_simp

text \<open>
  C7, amended. The daily extraction of \<^verbatim>\<open>update_temp_plot\<close> returns all Observations
  of the city and the year, each as often as the dataset has it, in the order of the
  dataset; the three traces of the figure take their dates from these rows in this order.
  The rows ascend in time whenever the dataset does.
\<close>

theorem filterDaily_dataset_order:
  "set (filterDaily df c ano) = {r \<in> set df. cidade r = c \<and> year r = ano}
   \<and> (\<forall>r. count_list (filterDaily df c ano) r =
            (if cidade r = c \<and> year r = ano then count_list df r else 0))
   \<and> subseq (filterDaily df c ano) df
   \<and> (\<exists>fig. update_temp_plot df c ano = Inr fig
         \<and> map sc_x (t_traces fig) = replicate 3 (map index (filterDaily df c ano)))
   \<and> (ascending df \<longrightarrow> ascending (filterDaily df c ano))"
proof -
  have 1: "set (filterDaily df c ano) = {r \<in> set df. cidade r = c \<and> year r = ano}"
    by (auto simp: filterDaily_def)
  have 2: "count_list (filterDaily df c ano) r =
            (if cidade r = c \<and> year r = ano then count_list df r else 0)" for r
    unfolding filterDaily_def by (induction df) auto
  have 3: "subseq (filterDaily df c ano) df"
    by (simp add: filterDaily_def)
  have 4: "\<exists>fig. update_temp_plot df c ano = Inr fig
         \<and> map sc_x (t_traces fig) = replicate 3 (map index (filterDaily df c ano))"
    unfolding update_temp_plot_eq by (simp add: numeral_3_eq_3)
  have 5: "ascending df \<longrightarrow> ascending (filterDaily df c ano)"
    by (simp add: filterDaily_def ascending_filter)
  from 1 2 3 4 5 show ?thesis by blast
qed

theorem filterDaily_dataset_order_witness:
  "ascending example_sorted_df
   \<and> ascending (filterDaily example_sorted_df ''Recife'' 2020)
   \<and> map (\<lambda>r. (ts_month (index r), ts_day (index r)))
        (filterDaily example_sorted_df ''Recife'' 2020) = [(Jan, 5), (Mar, 9)]"
proof -
  have asc: "ascending example_sorted_df"
    by code_simp
  have rows: "map (\<lambda>r. (ts_month (index r), ts_day (index r)))
        (filterDaily example_sorted_df ''Recife'' 2020) = [(Jan, 5), (Mar, 9)]"
    by code_simp
  from filterDaily_dataset_order [of example_sorted_df "''Recife''" 2020] asc
  have "ascending (filterDaily example_sorted_df ''Recife'' 2020)"
    by (elim conjE impE)
  with asc rows show ?thesis
    by (intro conjI)
qed

section \<open>The heat-wave flag\<close>

lemma of_char_upper_char:
  "(of_char (upper_char c) :: nat) =
     (if 97 \<le> (of_char c :: nat) \<and> (of_char c :: nat) \<le> 122 then of_char c - 32
      else of_char c)"
  by (auto simp: upper_char_def Let_def)

lemma of_char_lower_char:
  "(of_char (lower_char c) :: nat) =
     (if 65 \<le> (of_char c :: nat) \<and> (of_char c :: nat) \<le> 90 then of_char c + 32
      else of_char c)"
  by (auto simp: lower_char_def Let_def)

lemma char_eq_nat: "c = d \<longleftrightarrow> (of_char c :: nat) = of_char d"
  by simp

text \<open>Two characters have the same upper case exactly when they have the same lower case.\<close>

lemma upper_lower_char: "upper_char c = upper_char d \<longleftrightarrow> lower_char c = lower_char d"
proof -
  define m where "m = (of_char c :: nat)"
  define n where "n = (of_char d :: nat)"
  have "(if 97 \<le> m \<and> m \<le> 122 then m - 32 else m) = (if 97 \<le> n \<and> n \<le> 122 then n - 32 else n)
      \<longleftrightarrow> (if 65 \<le> m \<and> m \<le> 90 then m + 32 else m) = (if 65 \<le> n \<and> n \<le> 90 then n + 32 else n)"
    by (simp split: if_splits) arith
  then show ?thesis
    unfolding char_eq_nat [of "upper_char c"] char_eq_nat [of "lower_char c"]
      of_char_upper_char of_char_lower_char m_def n_def .
qed

lemma upper_lower: "upper s = upper t \<longleftrightarrow> map lower_char s = map lower_char t"
  unfolding upper_def
  by (induction s arbitrary: t) (auto simp: upper_lower_char Cons_eq_map_conv)

lemma upper_TRUE: "upper ''TRUE'' = ''TRUE''"
  by code_simp

lemma upper_py_str: "upper (py_str v) = ''TRUE'' \<longleftrightarrow> isHeatWaveDay v"
  using upper_lower [of "py_str v" "''TRUE''"]
  by (simp add: upper_TRUE isHeatWaveDay_def ci_equal_def)

lemma flagged_rows:
  "filter (\<lambda>r. isHW r = ''TRUE'') (load_data raw)
     = filter (\<lambda>r. isHW r = ''TRUE'') (map canonical_row raw)"
  unfolding load_data_def
  by (induction raw) (auto simp: normalize_row_def canonical_row_def upper_py_str)

lemma hw_rows_flagged:
  "hw_rows df c ano = filter (\<lambda>r. cidade r = c \<and> year r = ano) (filter (\<lambda>r. isHW r = ''TRUE'') df)"
  by (auto simp: hw_rows_def intro: filter_cong)

lemma hw_rows_load_data:
  "hw_rows (load_data raw) c ano = map normalize_row (hw_raw_rows raw c ano)"
  unfolding hw_rows_def hw_raw_rows_def load_data_def
  by (induction raw) (auto simp: normalize_row_def upper_py_str)

lemma flagged_keys:
  "map (\<lambda>r. (cidade r, year r)) (filter (\<lambda>r. isHW r = ''TRUE'') (load_data raw))
     = map (\<lambda>r. (cidade r, year r)) (filter (\<lambda>r. isHeatWaveDay (isHW r)) raw)"
  unfolding load_data_def
  by (induction raw) (auto simp: normalize_row_def upper_py_str)

lemma count_normalized:
  "length (filter (\<lambda>r. strftime_B (index r) = m) (map normalize_row rows))
     = length (filter (\<lambda>r. strftime_B (index r) = m) rows)"
  by (induction rows) (auto simp: normalize_row_def)

lemma isHeatWaveDay_examples:
  "isHeatWaveDay (CStr ''TRUE'') \<and> isHeatWaveDay (CStr ''true'')
   \<and> isHeatWaveDay (CStr ''TrUe'') \<and> isHeatWaveDay (CBool True)
   \<and> \<not> isHeatWaveDay (CStr ''FALSE'') \<and> \<not> isHeatWaveDay (CStr ''false'')
   \<and> \<not> isHeatWaveDay (CBool False) \<and> \<not> isHeatWaveDay CNaN
   \<and> \<not> isHeatWaveDay (CInt 0) \<and> \<not> isHeatWaveDay (CInt 1)
   \<and> \<not> isHeatWaveDay (CStr '' TRUE'')"
  by code_simp

lemma load_data_example:
  "calculate_hw_summary (load_data example_raw) =
     [\<lparr>s_cidade = ''Natal'', s_year = 2021, dias_hw = 1\<rparr>,
      \<lparr>s_cidade = ''Recife'', s_year = 2020, dias_hw = 3\<rparr>]
   \<and> map frequencia (calculate_hw_monthly strftime_B_C (load_data example_raw) ''Recife'' 2020)
       = [2, 0, 1, 0, 0, 0, 0, 0, 0, 0, 0, 0]"
  by code_simp

text \<open>
  C8. The flag column after \<^verbatim>\<open>load_data\<close> is \<^verbatim>\<open>"TRUE"\<close> exactly for the raw values whose
  text is \<^verbatim>\<open>TRUE\<close> up to the case of letters, and the two aggregations that read the flag
  count exactly the rows with such a raw value: \<^verbatim>\<open>calculate_hw_summary\<close> has one row
  for each city and year with such a row, holding their number, and the frequency
  \<^verbatim>\<open>calculate_hw_monthly\<close> gives a month is the number of such rows of the city and the
  year in that month. So both give what they give on the dataset whose flag is
  \<^verbatim>\<open>"TRUE"\<close> for these values and \<^verbatim>\<open>"FALSE"\<close> for all others. The strings \<^verbatim>\<open>true\<close> and
  \<^verbatim>\<open>TrUe\<close> and the boolean true count as heat-wave days; \<^verbatim>\<open>FALSE\<close>, \<^verbatim>\<open>false\<close>, the
  boolean false, an empty cell (NaN), the numbers 0 and 1, and \<^verbatim>\<open>TRUE\<close> with a leading
  blank do not. In the example, the rows flagged by the boolean true, \<^verbatim>\<open>true\<close>,
  \<^verbatim>\<open>True\<close> and \<^verbatim>\<open>TRUE\<close> are counted, and those with \<^verbatim>\<open>FALSE\<close>, an empty cell and the
  number 1 are not.
\<close>

theorem heat_wave_flag_normalized:
  "(upper (py_str v) = ''TRUE'') = isHeatWaveDay v
   \<and> (isHW (normalize_row row) = ''TRUE'') = isHeatWaveDay (isHW row)
   \<and> calculate_hw_summary (load_data raw) =
       map (\<lambda>(c, ano). \<lparr>s_cidade = c, s_year = ano, dias_hw = length (hw_raw_rows raw c ano)\<rparr>)
         (sort (remdups (map (\<lambda>r. (cidade r, year r))
                          (filter (\<lambda>r. isHeatWaveDay (isHW r)) raw))))
   \<and> calculate_hw_monthly strftime_B (load_data raw) c ano =
       map (\<lambda>m. \<lparr>mes = m,
                 frequencia = length (filter (\<lambda>r. strftime_B (index r) = m)
                                        (hw_raw_rows raw c ano))\<rparr>)
         all_months
   \<and> calculate_hw_summary (load_data raw) = calculate_hw_summary (map canonical_row raw)
   \<and> calculate_hw_monthly strftime_B (load_data raw) c ano
       = calculate_hw_monthly strftime_B (map canonical_row raw) c ano
   \<and> isHeatWaveDay (CStr ''TRUE'') \<and> isHeatWaveDay (CStr ''true'')
   \<and> isHeatWaveDay (CStr ''TrUe'') \<and> isHeatWaveDay (CBool True)
   \<and> \<not> isHeatWaveDay (CStr ''FALSE'') \<and> \<not> isHeatWaveDay (CStr ''false'')
   \<and> \<not> isHeatWaveDay (CBool False) \<and> \<not> isHeatWaveDay CNaN
   \<and> \<not> isHeatWaveDay (CInt 0) \<and> \<not> isHeatWaveDay (CInt 1)
   \<and> \<not> isHeatWaveDay (CStr '' TRUE'')
   \<and> calculate_hw_summary (load_data example_raw) =
       [\<lparr>s_cidade = ''Natal'', s_year = 2021, dias_hw = 1\<rparr>,
        \<lparr>s_cidade = ''Recife'', s_year = 2020, dias_hw = 3\<rparr>]
   \<and> map frequencia (calculate_hw_monthly strftime_B_C (load_data example_raw) ''Recife'' 2020)
       = [2, 0, 1, 0, 0, 0, 0, 0, 0, 0, 0, 0]"
proof -
  have 1: "(upper (py_str v) = ''TRUE'') = isHeatWaveDay v"
    by (rule upper_py_str)
  have 2: "(isHW (normalize_row row) = ''TRUE'') = isHeatWaveDay (isHW row)"
    by (simp add: normalize_row_def upper_py_str)
  have 3: "calculate_hw_summary (load_data raw) =
       map (\<lambda>(c, ano). \<lparr>s_cidade = c, s_year = ano, dias_hw = length (hw_raw_rows raw c ano)\<rparr>)
         (sort (remdups (map (\<lambda>r. (cidade r, year r))
                          (filter (\<lambda>r. isHeatWaveDay (isHW r)) raw))))"
    unfolding calculate_hw_summary_eq flagged_keys hw_rows_load_data by simp
  have 4: "calculate_hw_monthly strftime_B (load_data raw) c ano =
       map (\<lambda>m. \<lparr>mes = m,
                 frequencia = length (filter (\<lambda>r. strftime_B (index r) = m)
                                        (hw_raw_rows raw c ano))\<rparr>)
         all_months"
    unfolding calculate_hw_monthly_eq hw_rows_load_data count_normalized by (rule refl)
  have 5: "calculate_hw_summary (load_data raw) = calculate_hw_summary (map canonical_row raw)"
    unfolding calculate_hw_summary_def flagged_rows by (rule refl)
  have 6: "calculate_hw_monthly strftime_B (load_data raw) c ano
       = calculate_hw_monthly strftime_B (map canonical_row raw) c ano"
    unfolding calculate_hw_monthly_eq hw_rows_flagged flagged_rows by (rule refl)
  from 1 2 3 4 5 6 isHeatWaveDay_examples load_data_example show ?thesis
    by (intro conjI) simp_all
qed

section \<open>The aggregators leave the dataset as it is\<close>

lemma map_fst_filter: "map fst (filter (\<lambda>(r, m). p r) fr) = filter p (map fst fr)"
  by (simp add: filter_map comp_def case_prod_unfold)

lemma size_groups_frame:
  "size_groups (groupby (\<lambda>(r, m). k r) fr) = size_groups (groupby k (map fst fr))"
  by (simp add: size_groups_groupby filter_map comp_def case_prod_unfold)

lemma groupby_mean_frame:
  "map (\<lambda>(y, g). (y, h (map f (map fst g)))) (groupby (\<lambda>(r, m). k r) fr)
     = map (\<lambda>(y, g). (y, h (map f g))) (groupby k (map fst fr))"
  by (simp add: groupby_def filter_map comp_def case_prod_unfold)

lemma frame_column: "map (\<lambda>(r, m). f r) fr = map f (map fst fr)"
  by (simp add: comp_def case_prod_unfold)

lemma map_filter_mes:
  "List.map_filter snd (map (\<lambda>(r, m). (r, Some (f r))) fr) = map f (map fst fr)"
  by (induction fr) (auto simp: List.map_filter_simps)

text \<open>
  What each aggregator does on the store: its result is the one of the function on the
  rows of the frame at \<open>df\<close>, and the store grows by the new frames at its end.
\<close>

lemma calculate_hw_summary_st_eq:
  assumes "df < length s"
  shows "calculate_hw_summary_st df s =
     (calculate_hw_summary (map fst (s ! df)),
      s @ [filter (\<lambda>(r, m). isHW r = ''TRUE'') (s ! df),
           filter (\<lambda>(r, m). isHW r = ''TRUE'') (s ! df)])"
  using assms
  by (simp add: calculate_hw_summary_st_def calculate_hw_summary_def st_getitem_def st_copy_def
      alloc_def nth_append size_groups_frame [where k = "\<lambda>r. (cidade r, year r)"] map_fst_filter)

lemma calculate_anomalies_st_eq:
  assumes "df < length s"
  shows "calculate_anomalies_st ops df c s =
     (calculate_anomalies ops (map fst (s ! df)) c,
      s @ [filter (\<lambda>(r, m). cidade r = c) (s ! df),
           filter (\<lambda>(r, m). cidade r = c) (s ! df)])"
  using assms
  by (simp add: calculate_anomalies_st_def calculate_anomalies_def st_getitem_def alloc_def
      nth_append groupby_mean_frame map_fst_filter frame_column del: map_map)

lemma calculate_hw_monthly_st_eq:
  assumes "df < length s"
  shows "calculate_hw_monthly_st strftime_B df c ano s =
     (calculate_hw_monthly strftime_B (map fst (s ! df)) c ano,
      s @ [filter (\<lambda>(r, m). cidade r = c \<and> year r = ano \<and> isHW r = ''TRUE'') (s ! df),
           map (\<lambda>(r, m). (r, Some (strftime_B (index r))))
             (filter (\<lambda>(r, m). cidade r = c \<and> year r = ano \<and> isHW r = ''TRUE'') (s ! df))])"
  using assms
  by (simp add: calculate_hw_monthly_st_def calculate_hw_monthly_def st_getitem_def st_copy_def
      st_set_mes_def alloc_def nth_append list_update_append map_filter_mes map_fst_filter
      size_groups_key_column del: map_map)

text \<open>
  C9. Let the dataset be the frame at address \<open>df\<close> of the store. Each of the three
  aggregators, called a second time with the same arguments on the store the first call
  left, returns what the first call returned; the calls leave the frame at \<open>df\<close> as it
  was; and what they return is the value of the function on the rows of the dataset.
\<close>

theorem aggregators_idempotent:
  assumes "df < length s"
  shows "fst (calculate_hw_summary_st df (snd (calculate_hw_summary_st df s)))
           = fst (calculate_hw_summary_st df s)
     \<and> snd (calculate_hw_summary_st df s) ! df = s ! df
     \<and> fst (calculate_hw_summary_st df s) = calculate_hw_summary (map fst (s ! df))
     \<and> fst (calculate_anomalies_st ops df c (snd (calculate_anomalies_st ops df c s)))
           = fst (calculate_anomalies_st ops df c s)
     \<and> snd (calculate_anomalies_st ops df c s) ! df = s ! df
     \<and> fst (calculate_anomalies_st ops df c s) = calculate_anomalies ops (map fst (s ! df)) c
     \<and> fst (calculate_hw_monthly_st strftime_B df c ano
              (snd (calculate_hw_monthly_st strftime_B df c ano s)))
           = fst (calculate_hw_monthly_st strftime_B df c ano s)
     \<and> snd (calculate_hw_monthly_st strftime_B df c ano s) ! df = s ! df
     \<and> fst (calculate_hw_monthly_st strftime_B df c ano s)
           = calculate_hw_monthly strftime_B (map fst (s ! df)) c ano"
proof -
  have grow: "df < length (s @ fs)" for fs :: store
    using assms by simp
  have keep: "(s @ fs) ! df = s ! df" for fs :: store
    using assms by (simp add: nth_append)
  show ?thesis
    by (simp add: calculate_hw_summary_st_eq [OF assms] calculate_hw_summary_st_eq [OF grow]
        calculate_anomalies_st_eq [OF assms] calculate_anomalies_st_eq [OF grow]
        calculate_hw_monthly_st_eq [OF assms] calculate_hw_monthly_st_eq [OF grow] keep)
qed

lemma example_store_rows: "map fst (example_store ! 0) = example_df"
  by (simp add: example_store_def comp_def)

theorem aggregators_idempotent_witness:
  "(0::nat) < length example_store
   \<and> fst (calculate_hw_summary_st 0 (snd (calculate_hw_summary_st 0 example_store)))
       = fst (calculate_hw_summary_st 0 example_store)
   \<and> fst (calculate_hw_summary_st 0 example_store) =
       [\<lparr>s_cidade = ''Fortaleza'', s_year = 2020, dias_hw = 1\<rparr>,
        \<lparr>s_cidade = ''Recife'', s_year = 2020, dias_hw = 3\<rparr>]
   \<and> fst (calculate_hw_monthly_st strftime_B_C 0 ''Recife'' 2020
            (snd (calculate_hw_monthly_st strftime_B_C 0 ''Recife'' 2020 example_store)))
       = fst (calculate_hw_monthly_st strftime_B_C 0 ''Recife'' 2020 example_store)
   \<and> snd (calculate_hw_monthly_st strftime_B_C 0 ''Recife'' 2020 example_store) ! 0
       = example_store ! 0"
proof -
  have len: "(0::nat) < length example_store"
    by (simp add: example_store_def)
  note idem = aggregators_idempotent
    [OF len, where c = "''Recife''" and strftime_B = strftime_B_C and ano = 2020]
  from idem have "fst (calculate_hw_summary_st 0 example_store) = calculate_hw_summary example_df"
    by (simp add: example_store_rows)
  then have summary: "fst (calculate_hw_summary_st 0 example_store) =
       [\<lparr>s_cidade = ''Fortaleza'', s_year = 2020, dias_hw = 1\<rparr>,
        \<lparr>s_cidade = ''Recife'', s_year = 2020, dias_hw = 3\<rparr>]"
    by (simp add: calculate_hw_summary_example)
  from len idem summary show ?thesis
    by (intro conjI) simp_all
qed

end
